theory Spec2Isabelle
  imports Complex_Main "HOL-Library.Word"
begin

section \<open>JavaScript values reaching the server actions\<close>

text \<open>
  The actions of \<^verbatim>\<open>src/app/lib/actions.ts\<close> read their input with \<^verbatim>\<open>formData.get\<close>,
  validate it with zod schemas, write an uploaded file, send one SQL statement and then
  call \<^verbatim>\<open>revalidatePath\<close> and \<^verbatim>\<open>redirect\<close>. The file calls into JavaScript
  (\<^verbatim>\<open>Number\<close>, \<^verbatim>\<open>Date\<close>, \<^verbatim>\<open>String\<close>), Node (\<^verbatim>\<open>path\<close>) and zod 3; these are modelled
  by what they are documented to compute, the actions and the schemas by their text.
  Strings are sequences of code units (\<^typ>\<open>char\<close>, the Latin-1 range); a \<^verbatim>\<open>File\<close> is a
  record of the properties the code reads.
\<close>

type_synonym bytes = "8 word list"

record jsfile =
  file_name :: string
  file_size :: nat
  file_type :: string
  file_content :: bytes

text \<open>The values a schema can be handed: \<^verbatim>\<open>undefined\<close> (a key absent from the object
  literal), \<^verbatim>\<open>null\<close> (\<^verbatim>\<open>formData.get\<close> of an absent field), a string and a
  \<^verbatim>\<open>File\<close>. The module runs on the server (\<^verbatim>\<open>'use server'\<close>), where no class
  \<^verbatim>\<open>FileList\<close> exists, so no value is a \<^verbatim>\<open>FileList\<close>.\<close>

datatype jsval = Undefined | Null | Str string | FileV jsfile

text \<open>The errors, other than those of the store, that leave a function uncaught.\<close>

datatype js_error = ReferenceError

datatype formDataEntryValue = FString string | FFile jsfile

type_synonym formData = "(string \<times> formDataEntryValue) list"

text \<open>\<^verbatim>\<open>FormData.get(name)\<close>: the first value stored under the name, or \<^verbatim>\<open>null\<close>.\<close>

definition formData_get :: "formData \<Rightarrow> string \<Rightarrow> jsval" where
  "formData_get fd k =
     (case map_of fd k of
        None \<Rightarrow> Null
      | Some (FString s) \<Rightarrow> Str s
      | Some (FFile f) \<Rightarrow> FileV f)"

text \<open>JavaScript truthiness, as used by \<^verbatim>\<open>if (!file)\<close>.\<close>

fun truthy :: "jsval \<Rightarrow> bool" where
  "truthy Undefined = False"
| "truthy Null = False"
| "truthy (Str s) = (s \<noteq> [])"
| "truthy (FileV f) = True"

section \<open>JavaScript numbers\<close>

text \<open>
  A Number is an IEEE 754 binary64 value: \<^verbatim>\<open>NaN\<close>, an infinity, or a finite value, which
  is a rational. The two zeros are identified (no operation of the actions tells them
  apart). Every arithmetic result is the exact result rounded to the nearest binary64
  value, ties to even.
\<close>

datatype jsnum = NaN | PosInf | NegInf | Fin rat

definition pow2 :: "int \<Rightarrow> rat" where
  "pow2 e = (if 0 \<le> e then 2 ^ nat e else 1 / 2 ^ nat (- e))"

text \<open>The number of binary digits of a positive integer.\<close>

function bitlen :: "int \<Rightarrow> int" where
  "bitlen n = (if n \<le> 0 then 0 else 1 + bitlen (n div 2))"
  by pat_completeness auto
termination
  by (relation "measure nat") auto

declare bitlen.simps [simp del]

text \<open>The exponent of the binade of a positive rational: \<open>\<lfloor>log\<^sub>2 q\<rfloor>\<close>.\<close>

definition binade :: "rat \<Rightarrow> int" where
  "binade q =
     (let (n, d) = quotient_of q;
          e0 = bitlen n - bitlen d
      in if pow2 e0 \<le> q then e0 else e0 - 1)"

definition round_half_even :: "rat \<Rightarrow> int" where
  "round_half_even q =
     (let f = \<lfloor>q\<rfloor>; r = q - of_int f
      in if r < 1 / 2 then f
         else if 1 / 2 < r then f + 1
         else if even f then f else f + 1)"

text \<open>Rounding a positive rational: 53 significant bits, the least exponent of a unit
  in the last place is \<open>-1074\<close>, and a result of \<open>2\<^sup>1\<^sup>0\<^sup>2\<^sup>4\<close> or more is infinite.\<close>

definition round_pos :: "rat \<Rightarrow> jsnum" where
  "round_pos q =
     (let p = max (binade q - 52) (- 1074);
          m = round_half_even (q / pow2 p);
          r = of_int m * pow2 p
      in if 2 ^ 1024 \<le> r then PosInf else Fin r)"

fun js_neg :: "jsnum \<Rightarrow> jsnum" where
  "js_neg NaN = NaN"
| "js_neg PosInf = NegInf"
| "js_neg NegInf = PosInf"
| "js_neg (Fin q) = Fin (- q)"

definition to_double :: "rat \<Rightarrow> jsnum" where
  "to_double q =
     (if q = 0 then Fin 0
      else if 0 < q then round_pos q
      else js_neg (round_pos (- q)))"

text \<open>The operator \<^verbatim>\<open>*\<close> on Numbers.\<close>

fun js_mul :: "jsnum \<Rightarrow> jsnum \<Rightarrow> jsnum" where
  "js_mul NaN y = NaN"
| "js_mul x NaN = NaN"
| "js_mul (Fin a) (Fin b) = to_double (a * b)"
| "js_mul (Fin a) PosInf = (if a = 0 then NaN else if 0 < a then PosInf else NegInf)"
| "js_mul (Fin a) NegInf = (if a = 0 then NaN else if 0 < a then NegInf else PosInf)"
| "js_mul PosInf (Fin b) = (if b = 0 then NaN else if 0 < b then PosInf else NegInf)"
| "js_mul NegInf (Fin b) = (if b = 0 then NaN else if 0 < b then NegInf else PosInf)"
| "js_mul PosInf PosInf = PosInf"
| "js_mul PosInf NegInf = NegInf"
| "js_mul NegInf PosInf = NegInf"
| "js_mul NegInf NegInf = PosInf"

text \<open>The comparison \<^verbatim>\<open>x <= 0\<close> (false when \<^verbatim>\<open>x\<close> is \<^verbatim>\<open>NaN\<close>).\<close>

fun js_le_zero :: "jsnum \<Rightarrow> bool" where
  "js_le_zero NaN = False"
| "js_le_zero PosInf = False"
| "js_le_zero NegInf = True"
| "js_le_zero (Fin q) = (q \<le> 0)"

subsection \<open>\<^verbatim>\<open>Number(value)\<close>\<close>

text \<open>White space and line terminators that \<^verbatim>\<open>Number\<close> strips from both ends of a
  string, among the code units below 256.\<close>

definition is_white :: "char \<Rightarrow> bool" where
  "is_white c \<longleftrightarrow> of_char c \<in> {9, 10, 11, 12, 13, 32, 160 :: int}"

definition trim :: "string \<Rightarrow> string" where
  "trim s = rev (dropWhile is_white (rev (dropWhile is_white s)))"

definition digit_val :: "char \<Rightarrow> int option" where
  "digit_val c =
     (let n = of_char c :: int
      in if 48 \<le> n \<and> n \<le> 57 then Some (n - 48)
         else if 97 \<le> n \<and> n \<le> 102 then Some (n - 87)
         else if 65 \<le> n \<and> n \<le> 70 then Some (n - 55)
         else None)"

definition is_digit_of :: "int \<Rightarrow> char \<Rightarrow> bool" where
  "is_digit_of base c = (case digit_val c of None \<Rightarrow> False | Some v \<Rightarrow> v < base)"

definition digits_value :: "int \<Rightarrow> string \<Rightarrow> int" where
  "digits_value base ds = foldl (\<lambda>acc c. acc * base + (case digit_val c of None \<Rightarrow> 0 | Some v \<Rightarrow> v)) 0 ds"

text \<open>\<^verbatim>\<open>ExponentPart\<close> of a decimal literal: nothing, or \<^verbatim>\<open>e\<close>/\<^verbatim>\<open>E\<close>, an optional sign
  and at least one digit.\<close>

definition exponent_part :: "string \<Rightarrow> int option" where
  "exponent_part s =
     (case s of
        [] \<Rightarrow> Some 0
      | c # r \<Rightarrow>
          if c = CHR ''e'' \<or> c = CHR ''E'' then
            (let (neg, ds) =
                   (case r of
                      [] \<Rightarrow> (False, [])
                    | d # r' \<Rightarrow>
                        if d = CHR ''-'' then (True, r')
                        else if d = CHR ''+'' then (False, r')
                        else (False, r))
             in if ds \<noteq> [] \<and> list_all (is_digit_of 10) ds
                then Some (if neg then - digits_value 10 ds else digits_value 10 ds)
                else None)
          else None)"

text \<open>\<^verbatim>\<open>StrUnsignedDecimalLiteral\<close>, without \<^verbatim>\<open>Infinity\<close>: digits, an optional fraction
  and an optional exponent, with a digit on at least one side of the point. The result is
  the mathematical value.\<close>

definition unsigned_decimal :: "string \<Rightarrow> rat option" where
  "unsigned_decimal s =
     (let ip = takeWhile (is_digit_of 10) s; r1 = dropWhile (is_digit_of 10) s;
          has_dot = (r1 \<noteq> [] \<and> hd r1 = CHR ''.'');
          fp = (if has_dot then takeWhile (is_digit_of 10) (tl r1) else []);
          r2 = (if has_dot then dropWhile (is_digit_of 10) (tl r1) else r1)
      in if ip = [] \<and> fp = [] then None
         else (case exponent_part r2 of
                 None \<Rightarrow> None
               | Some e \<Rightarrow>
                   Some (of_int (digits_value 10 (ip @ fp)) *
                         (let k = e - int (length fp)
                          in if 0 \<le> k then 10 ^ nat k else 1 / 10 ^ nat (- k)))))"

definition str_decimal :: "string \<Rightarrow> jsnum" where
  "str_decimal s =
     (if s = ''Infinity'' then PosInf
      else case unsigned_decimal s of None \<Rightarrow> NaN | Some q \<Rightarrow> to_double q)"

definition non_decimal :: "string \<Rightarrow> jsnum option" where
  "non_decimal s =
     (case s of
        z # x # ds \<Rightarrow>
          (let base = (if x = CHR ''x'' \<or> x = CHR ''X'' then 16
                       else if x = CHR ''o'' \<or> x = CHR ''O'' then 8
                       else if x = CHR ''b'' \<or> x = CHR ''B'' then 2 else 0 :: int)
           in if z = CHR ''0'' \<and> base \<noteq> 0 then
                Some (if ds \<noteq> [] \<and> list_all (is_digit_of base) ds
                      then to_double (of_int (digits_value base ds)) else NaN)
              else None)
      | _ \<Rightarrow> None)"

text \<open>\<^verbatim>\<open>StringToNumber\<close>: the trimmed string is empty (zero), a signed decimal literal, or
  an unsigned hexadecimal, octal or binary integer literal; anything else is \<^verbatim>\<open>NaN\<close>.\<close>

definition string_to_number :: "string \<Rightarrow> jsnum" where
  "string_to_number s =
     (let t = trim s
      in case t of
           [] \<Rightarrow> Fin 0
         | c # r \<Rightarrow>
             if c = CHR ''+'' then str_decimal r
             else if c = CHR ''-'' then js_neg (str_decimal r)
             else (case non_decimal t of Some n \<Rightarrow> n | None \<Rightarrow> str_decimal t))"

text \<open>\<^verbatim>\<open>Number(v)\<close>: \<^verbatim>\<open>undefined\<close> gives \<^verbatim>\<open>NaN\<close>, \<^verbatim>\<open>null\<close> gives zero, a string is
  parsed, an object without a numeric primitive value (a \<^verbatim>\<open>File\<close>) gives \<^verbatim>\<open>NaN\<close>.\<close>

fun Number :: "jsval \<Rightarrow> jsnum" where
  "Number Undefined = NaN"
| "Number Null = Fin 0"
| "Number (Str s) = string_to_number s"
| "Number (FileV f) = NaN"

section \<open>The zod schemas\<close>

text \<open>
  A schema maps a value to a typed result or to the messages of its issues. The schemas
  are written with the parameters \<^verbatim>\<open>required_error\<close> and \<^verbatim>\<open>invalid_type_error\<close> of
  zod 3. The messages follow zod's error maps: a schema created with \<^verbatim>\<open>required_error\<close> or
  \<^verbatim>\<open>invalid_type_error\<close> uses the first when the value is \<^verbatim>\<open>undefined\<close> and the second
  for any other value of the wrong type; without them the default map answers
  \<^verbatim>\<open>Required\<close> and \<^verbatim>\<open>Expected T, received R\<close>.
\<close>

datatype 'a parsed = Valid 'a | Invalid "string list"

fun parsedType :: "jsval \<Rightarrow> string" where
  "parsedType Undefined = ''undefined''"
| "parsedType Null = ''null''"
| "parsedType (Str s) = ''string''"
| "parsedType (FileV f) = ''object''"

definition invalid_type_message ::
  "string option \<Rightarrow> string option \<Rightarrow> string \<Rightarrow> jsval \<Rightarrow> string" where
  "invalid_type_message required_error invalid_type_error expected v =
     (if v = Undefined then
        (case required_error of Some m \<Rightarrow> m | None \<Rightarrow> ''Required'')
      else
        (case invalid_type_error of
           Some m \<Rightarrow> m
         | None \<Rightarrow> ''Expected '' @ expected @ '', received '' @ parsedType v))"

text \<open>\<^verbatim>\<open>z.string({required_error, invalid_type_error})\<close>: any string passes, the empty
  one included.\<close>

definition z_string :: "string option \<Rightarrow> string option \<Rightarrow> jsval \<Rightarrow> string parsed" where
  "z_string required_error invalid_type_error v =
     (case v of
        Str s \<Rightarrow> Valid s
      | _ \<Rightarrow> Invalid [invalid_type_message required_error invalid_type_error ''string'' v])"

text \<open>\<^verbatim>\<open>z.coerce.number().gt(0, {message})\<close>: the value is replaced by \<^verbatim>\<open>Number(value)\<close>;
  \<^verbatim>\<open>NaN\<close> is a type issue raised before any check runs; the check reports when
  \<^verbatim>\<open>data <= 0\<close>.\<close>

definition z_coerce_number_gt0 :: "string \<Rightarrow> jsval \<Rightarrow> jsnum parsed" where
  "z_coerce_number_gt0 msg v =
     (let data = Number v
      in if data = NaN then Invalid [''Expected number, received nan'']
         else if js_le_zero data then Invalid [msg]
         else Valid data)"

definition joinValues :: "string list \<Rightarrow> string" where
  "joinValues vs =
     (case map (\<lambda>v. [CHR 0x27] @ v @ [CHR 0x27]) vs of
        [] \<Rightarrow> []
      | q # qs \<Rightarrow> foldl (\<lambda>acc x. acc @ '' | '' @ x) q qs)"

text \<open>\<^verbatim>\<open>z.enum(values, {invalid_type_error})\<close>: a value that is not a string is a type
  issue; a string outside the values is an \<^verbatim>\<open>invalid_enum_value\<close> issue, which keeps its
  default message.\<close>

definition z_enum :: "string list \<Rightarrow> string option \<Rightarrow> jsval \<Rightarrow> string parsed" where
  "z_enum vs invalid_type_error v =
     (case v of
        Str s \<Rightarrow>
          if s \<in> set vs then Valid s
          else Invalid [''Invalid enum value. Expected '' @ joinValues vs @ '', received ''
                        @ [CHR 0x27] @ s @ [CHR 0x27]]
      | _ \<Rightarrow> Invalid [invalid_type_message None invalid_type_error (joinValues vs) v])"

text \<open>\<^verbatim>\<open>z.string().email({message})\<close>; the pattern of the installed zod is a
  parameter.\<close>

definition z_string_email :: "(string \<Rightarrow> bool) \<Rightarrow> string \<Rightarrow> jsval \<Rightarrow> string parsed" where
  "z_string_email emailRegex msg v =
     (case v of
        Str s \<Rightarrow> if emailRegex s then Valid s else Invalid [msg]
      | _ \<Rightarrow> Invalid [invalid_type_message None None ''string'' v])"

subsection \<open>Issues and \<^verbatim>\<open>flatten().fieldErrors\<close>\<close>

text \<open>An issue of an object schema: the key it belongs to and its message.\<close>

type_synonym zodIssue = "string \<times> string"

datatype 'a safeParseReturn = Success 'a | Failure "zodIssue list"

definition field_issues :: "string \<Rightarrow> 'a parsed \<Rightarrow> zodIssue list" where
  "field_issues k p = (case p of Valid x \<Rightarrow> [] | Invalid ms \<Rightarrow> map (Pair k) ms)"

type_synonym fieldErrors = "(string \<times> string list) list"

text \<open>\<^verbatim>\<open>fieldErrors[k] = fieldErrors[k] || []; fieldErrors[k].push(message)\<close>\<close>

definition push_issue :: "fieldErrors \<Rightarrow> zodIssue \<Rightarrow> fieldErrors" where
  "push_issue fe i =
     (if fst i \<in> fst ` set fe
      then map (\<lambda>(k, ms). if k = fst i then (k, ms @ [snd i]) else (k, ms)) fe
      else fe @ [(fst i, [snd i])])"

definition flatten_fieldErrors :: "zodIssue list \<Rightarrow> fieldErrors" where
  "flatten_fieldErrors issues = foldl push_issue [] issues"

subsection \<open>\<^verbatim>\<open>FormSchema\<close> and its derived invoice schemas\<close>

record invoiceData =
  customerId :: string
  amount :: jsnum
  status :: string

text \<open>\<^verbatim>\<open>FormSchema.omit({ id: true, date: true })\<close>: the keys \<^verbatim>\<open>customerId\<close>,
  \<^verbatim>\<open>amount\<close> and \<^verbatim>\<open>status\<close>, parsed in this order.\<close>

definition FormSchema_customerId :: "jsval \<Rightarrow> string parsed" where
  "FormSchema_customerId = z_string None (Some ''Please select a customer.'')"

definition FormSchema_amount :: "jsval \<Rightarrow> jsnum parsed" where
  "FormSchema_amount = z_coerce_number_gt0 ''Please enter an amount greater than $0.''"

definition FormSchema_status :: "jsval \<Rightarrow> string parsed" where
  "FormSchema_status = z_enum [''pending'', ''paid''] (Some ''Please select an invoice status.'')"

definition CreateInvoice_safeParse ::
  "jsval \<Rightarrow> jsval \<Rightarrow> jsval \<Rightarrow> invoiceData safeParseReturn" where
  "CreateInvoice_safeParse cid amt st =
     (case (FormSchema_customerId cid, FormSchema_amount amt, FormSchema_status st) of
        (Valid c, Valid a, Valid s) \<Rightarrow>
          Success \<lparr>customerId = c, amount = a, status = s\<rparr>
      | (pc, pa, ps) \<Rightarrow>
          Failure (field_issues ''customerId'' pc @ field_issues ''amount'' pa
                   @ field_issues ''status'' ps))"

definition UpdateInvoice_safeParse ::
  "jsval \<Rightarrow> jsval \<Rightarrow> jsval \<Rightarrow> invoiceData safeParseReturn" where
  "UpdateInvoice_safeParse = CreateInvoice_safeParse"

section \<open>Dates, paths and the stored file name\<close>

text \<open>The instant returned by \<^verbatim>\<open>new Date()\<close>, as the values of the getters the code
  calls (local time) and the calendar day in UTC that \<^verbatim>\<open>toISOString\<close> prints.\<close>

record date =
  getFullYear :: int
  getMonth :: nat
  getDate :: nat
  getHours :: nat
  getMinutes :: nat
  getSeconds :: nat
  getMilliseconds :: nat
  getUTCFullYear :: int
  getUTCMonth :: nat
  getUTCDate :: nat

text \<open>The decimal digit of a number below 10 (the only numbers it is applied to).\<close>

definition digit_char :: "nat \<Rightarrow> char" where
  "digit_char d = ''0123456789'' ! d"

text \<open>The decimal text of a natural number.\<close>

function String_nat :: "nat \<Rightarrow> string" where
  "String_nat n =
     (if n < 10 then [digit_char n] else String_nat (n div 10) @ [digit_char (n mod 10)])"
  by pat_completeness auto
termination
  by (relation "measure id") auto

declare String_nat.simps [simp del]

text \<open>\<^verbatim>\<open>String(n)\<close> and the template interpolation of an integer.\<close>

definition String_int :: "int \<Rightarrow> string" where
  "String_int i = (if i < 0 then CHR ''-'' # String_nat (nat (- i)) else String_nat (nat i))"

text \<open>\<^verbatim>\<open>s.padStart(n, '0')\<close>\<close>

definition padStart0 :: "nat \<Rightarrow> string \<Rightarrow> string" where
  "padStart0 n s = replicate (n - length s) (CHR ''0'') @ s"

text \<open>\<^verbatim>\<open>toISOString().split('T')[0]\<close>: the text before the first \<^verbatim>\<open>T\<close>, which is the
  UTC calendar day; a year outside 0..9999 is printed with a sign and six digits.\<close>

definition isoDate :: "date \<Rightarrow> string" where
  "isoDate d =
     (let y = getUTCFullYear d
      in (if 0 \<le> y \<and> y \<le> 9999 then padStart0 4 (String_nat (nat y))
          else (if y < 0 then ''-'' else ''+'') @ padStart0 6 (String_nat (nat \<bar>y\<bar>)))
         @ ''-'' @ padStart0 2 (String_nat (getUTCMonth d + 1))
         @ ''-'' @ padStart0 2 (String_nat (getUTCDate d)))"

subsection \<open>\<^verbatim>\<open>path.extname\<close> and \<^verbatim>\<open>path.basename\<close> (POSIX)\<close>

definition is_slash :: "char \<Rightarrow> bool" where
  "is_slash c \<longleftrightarrow> c = CHR ''/''"

text \<open>The last component of a path: trailing separators are skipped, then everything
  back to the previous separator is taken.\<close>

definition last_component :: "string \<Rightarrow> string" where
  "last_component p = rev (takeWhile (\<lambda>c. \<not> is_slash c) (dropWhile is_slash (rev p)))"

text \<open>The last component together with the separators that follow it.\<close>

definition from_last_component :: "string \<Rightarrow> string" where
  "from_last_component p =
     rev (takeWhile is_slash (rev p) @ takeWhile (\<lambda>c. \<not> is_slash c) (dropWhile is_slash (rev p)))"

text \<open>\<^verbatim>\<open>path.extname\<close>: from the last dot of the last component to its end; empty when
  there is no dot, when the dot is the first character of the component, or when the
  component is \<^verbatim>\<open>..\<close>.\<close>

definition extname :: "string \<Rightarrow> string" where
  "extname p =
     (let c = last_component p;
          after = rev (takeWhile (\<lambda>x. x \<noteq> CHR ''.'') (rev c))
      in if CHR ''.'' \<notin> set c then []
         else if length after + 1 = length c \<or> c = ''..'' then []
         else CHR ''.'' # after)"

text \<open>\<^verbatim>\<open>path.basename(path, suffix)\<close>: the last component, without the suffix when the
  component ends with it and is not equal to it. Node compares the suffix backwards
  against the component only: a component that is a proper end of the suffix is returned
  with its trailing separators.\<close>

definition basename :: "string \<Rightarrow> string \<Rightarrow> string" where
  "basename p suffix =
     (let c = last_component p
      in if suffix \<noteq> [] \<and> length suffix \<le> length p then
           if suffix = p then []
           else if length suffix \<le> length c then
             (if c \<noteq> suffix \<and> drop (length c - length suffix) c = suffix
              then take (length c - length suffix) c else c)
           else if drop (length suffix - length c) suffix = c then from_last_component p
           else c
         else c)"

subsection \<open>\<^verbatim>\<open>sanitizeAndTimestampFilename\<close>\<close>

text \<open>The characters kept by \<^verbatim>\<open>/[^a-zA-Z0-9-_]/g\<close>.\<close>

definition kept_char :: "char \<Rightarrow> bool" where
  "kept_char c =
     (let n = of_char c :: nat
      in (97 \<le> n \<and> n \<le> 122) \<or> (65 \<le> n \<and> n \<le> 90) \<or> (48 \<le> n \<and> n \<le> 57)
         \<or> c = CHR ''-'' \<or> c = CHR ''_'')"

definition timestamp :: "date \<Rightarrow> string" where
  "timestamp now =
     (let year = String_int (getFullYear now);
          month = padStart0 2 (String_nat (getMonth now + 1));
          day = padStart0 2 (String_nat (getDate now));
          hours = padStart0 2 (String_nat (getHours now));
          minutes = padStart0 2 (String_nat (getMinutes now));
          seconds = padStart0 2 (String_nat (getSeconds now));
          milliseconds = padStart0 3 (String_nat (getMilliseconds now))
      in year @ month @ day @ ''_'' @ hours @ minutes @ seconds @ ''_'' @ milliseconds)"

definition sanitizeAndTimestampFilename :: "date \<Rightarrow> string \<Rightarrow> string" where
  "sanitizeAndTimestampFilename now originalFilename =
     (let extension = extname originalFilename;
          nameWithoutExtension = basename originalFilename extension;
          nameWithoutExtension' =
            map (\<lambda>c. if kept_char c then c else CHR ''_'') nameWithoutExtension
      in nameWithoutExtension' @ ''_'' @ timestamp now @ extension)"

subsection \<open>\<^verbatim>\<open>FormSchemaCustomer\<close> and its derived customer schemas\<close>

definition msg_caracteres_no_validos :: string where
  "msg_caracteres_no_validos = ''Caracteres no v'' @ [CHR 0xE1] @ ''lidos''"

definition msg_email_no_valido :: string where
  "msg_email_no_valido = ''Email no v'' @ [CHR 0xE1] @ ''lido''"

definition FormSchemaCustomer_name :: "jsval \<Rightarrow> string parsed" where
  "FormSchemaCustomer_name =
     z_string (Some ''Ingrese el nombre del cliente'') (Some msg_caracteres_no_validos)"

definition FormSchemaCustomer_email :: "(string \<Rightarrow> bool) \<Rightarrow> jsval \<Rightarrow> string parsed" where
  "FormSchemaCustomer_email emailRegex = z_string_email emailRegex msg_email_no_valido"

definition FormSchemaCustomer_image_url :: "jsval \<Rightarrow> string parsed" where
  "FormSchemaCustomer_image_url = z_string None None"

text \<open>The \<^verbatim>\<open>transform\<close> of \<^verbatim>\<open>image_upload\<close>:
  \<^verbatim>\<open>if (val instanceof File) return val; if (val instanceof FileList) return val[0]; return null;\<close>
  A \<^verbatim>\<open>File\<close> is returned by the first line. For every other value the second line
  evaluates the identifier \<^verbatim>\<open>FileList\<close>, which the module neither imports nor declares
  and which is not a global of the server runtime: the evaluation throws
  \<^verbatim>\<open>ReferenceError\<close>, and neither \<^verbatim>\<open>return val[0]\<close> nor \<^verbatim>\<open>return null\<close> is reached.
  zod does not catch what a transform throws, so the error leaves \<^verbatim>\<open>safeParse\<close>.\<close>

definition image_upload_transform :: "jsval \<Rightarrow> js_error + jsfile option" where
  "image_upload_transform val =
     (case val of
        FileV f \<Rightarrow> Inr (Some f)
      | _ \<Rightarrow> Inl ReferenceError)"

text \<open>The \<^verbatim>\<open>superRefine\<close> of \<^verbatim>\<open>image_upload\<close>: the issues it adds, in order, for
  a result of the transform that is a \<^verbatim>\<open>File\<close> (\<open>Some\<close>) or is not (\<open>None\<close>).\<close>

definition image_upload_superRefine :: "jsfile option \<Rightarrow> string list" where
  "image_upload_superRefine file =
     (case file of
        None \<Rightarrow> [''Not a file'']
      | Some f \<Rightarrow>
          (if 5 * 1024 * 1024 < file_size f then [''Max file size allowed is 5MB''] else [])
          @ (if file_type f \<notin> set [''image/jpeg'', ''image/png'', ''image/webp'', ''image/jpg'']
             then [''File must be an image (jpeg, jpg, png, webp)''] else []))"

text \<open>The whole \<^verbatim>\<open>image_upload\<close> schema: it throws what the transform throws; the final
  \<^verbatim>\<open>pipe(z.custom<File>())\<close> accepts every value and is reached only when no issue was
  added.\<close>

definition FormSchemaCustomer_image_upload :: "jsval \<Rightarrow> js_error + jsfile parsed" where
  "FormSchemaCustomer_image_upload val =
     (case image_upload_transform val of
        Inl e \<Rightarrow> Inl e
      | Inr file \<Rightarrow>
          Inr (case (file, image_upload_superRefine file) of
                 (Some f, []) \<Rightarrow> Valid f
               | (_, issues) \<Rightarrow> Invalid issues))"

record customerData =
  name :: string
  email :: string
  image_url :: string
  image_upload :: jsfile

text \<open>\<^verbatim>\<open>FormSchemaCustomer.omit({ id: true })\<close>: the keys \<^verbatim>\<open>name\<close>, \<^verbatim>\<open>email\<close>,
  \<^verbatim>\<open>image_url\<close> and \<^verbatim>\<open>image_upload\<close>, parsed in this order. \<^verbatim>\<open>safeParse\<close> returns a
  success or a failure, or throws what the schema of \<^verbatim>\<open>image_upload\<close> throws (the three
  keys before it cannot throw).\<close>

definition CreateCustomer_safeParse ::
  "(string \<Rightarrow> bool) \<Rightarrow> jsval \<Rightarrow> jsval \<Rightarrow> jsval \<Rightarrow> jsval
     \<Rightarrow> js_error + customerData safeParseReturn" where
  "CreateCustomer_safeParse emailRegex n e u f =
     (case FormSchemaCustomer_image_upload f of
        Inl err \<Rightarrow> Inl err
      | Inr pf \<Rightarrow>
          Inr (case (FormSchemaCustomer_name n, FormSchemaCustomer_email emailRegex e,
                     FormSchemaCustomer_image_url u, pf) of
                 (Valid n', Valid e', Valid u', Valid f') \<Rightarrow>
                   Success \<lparr>name = n', email = e', image_url = u', image_upload = f'\<rparr>
               | (pn, pe, pu, pf') \<Rightarrow>
                   Failure (field_issues ''name'' pn @ field_issues ''email'' pe
                            @ field_issues ''image_url'' pu
                            @ field_issues ''image_upload'' pf')))"

definition UpdateCustomer_safeParse ::
  "(string \<Rightarrow> bool) \<Rightarrow> jsval \<Rightarrow> jsval \<Rightarrow> jsval \<Rightarrow> jsval
     \<Rightarrow> js_error + customerData safeParseReturn" where
  "UpdateCustomer_safeParse = CreateCustomer_safeParse"

section \<open>The server actions\<close>

text \<open>The SQL statements of the file, one constructor for each template, holding the
  bound parameters in the order of the text:
  \<^verbatim>\<open>INSERT INTO invoices (customer_id, amount, status, date) VALUES (..)\<close>,
  \<^verbatim>\<open>UPDATE invoices SET customer_id = .., amount = .., status = .. WHERE id = ..\<close>,
  \<^verbatim>\<open>DELETE FROM invoices WHERE id = ..\<close>,
  \<^verbatim>\<open>INSERT INTO customers (name, email, image_url) VALUES (..)\<close>,
  \<^verbatim>\<open>UPDATE customers SET name = .., email = .., image_url = .. WHERE id = ..\<close>,
  \<^verbatim>\<open>DELETE FROM customers WHERE id = ..\<close>.\<close>

datatype statement =
    INSERT_invoices string jsnum string string
  | UPDATE_invoices string jsnum string string
  | DELETE_invoices string
  | INSERT_customers string string string
  | UPDATE_customers string string string string
  | DELETE_customers string

text \<open>The calls an action makes to its collaborators, in order. \<^verbatim>\<open>WriteFile\<close> holds the
  arguments of \<^verbatim>\<open>path.join\<close> and the buffer; \<^verbatim>\<open>ConsoleLog\<close> holds the string arguments
  (a logged error object is not recorded).\<close>

datatype event =
    Sql statement
  | WriteFile "string list" bytes
  | RevalidatePath string
  | Redirect string
  | ConsoleLog "string list"

text \<open>What an invocation depends on besides its arguments: the clock, the working
  directory, the email pattern of the installed zod, and whether the store and the file
  system complete a request or throw.\<close>

record env =
  now :: date
  cwd :: string
  emailRegex :: "string \<Rightarrow> bool"
  sql_resolves :: "statement \<Rightarrow> bool"
  writeFile_resolves :: "string list \<Rightarrow> bytes \<Rightarrow> bool"

text \<open>The object an action returns to the form: \<^verbatim>\<open>{ errors?, message? }\<close>.\<close>

record formState =
  errors :: "fieldErrors option"
  message :: "string option"

text \<open>How an invocation ends: it returns a state, returns nothing, leaves through
  \<^verbatim>\<open>redirect\<close> (which does not return), rejects with the error of the store
  (\<open>Throws\<close>), or rejects with another error that nothing caught (\<open>Rejects\<close>).\<close>

datatype outcome =
  Returns formState | ReturnsVoid | Redirects string | Throws | Rejects js_error

record result =
  outcome :: outcome
  effects :: "event list"

text \<open>The actions take the previous state as an argument and never read it; the model
  leaves it out.\<close>

definition createInvoice :: "env \<Rightarrow> formData \<Rightarrow> result" where
  "createInvoice env fd =
     (case CreateInvoice_safeParse (formData_get fd ''customerId'') (formData_get fd ''amount'')
             (formData_get fd ''status'') of
        Failure issues \<Rightarrow>
          \<lparr>outcome = Returns \<lparr>errors = Some (flatten_fieldErrors issues),
                               message = Some ''Missing Fields. Failed to Create Invoice.''\<rparr>,
           effects = []\<rparr>
      | Success d \<Rightarrow>
          (let amountInCents = js_mul (amount d) (Fin 100);
               date = isoDate (now env);
               stmt = INSERT_invoices (customerId d) amountInCents (status d) date
           in if \<not> sql_resolves env stmt then
                \<lparr>outcome = Returns \<lparr>errors = None,
                                     message = Some ''Database Error: Failed to Create Invoice.''\<rparr>,
                 effects = [Sql stmt]\<rparr>
              else
                \<lparr>outcome = Redirects ''/dashboard/invoices'',
                 effects = [Sql stmt, RevalidatePath ''/dashboard/invoices'',
                            Redirect ''/dashboard/invoices'']\<rparr>))"

definition updateInvoice :: "env \<Rightarrow> string \<Rightarrow> formData \<Rightarrow> result" where
  "updateInvoice env id' fd =
     (case UpdateInvoice_safeParse (formData_get fd ''customerId'') (formData_get fd ''amount'')
             (formData_get fd ''status'') of
        Failure issues \<Rightarrow>
          \<lparr>outcome = Returns \<lparr>errors = Some (flatten_fieldErrors issues),
                               message = Some ''Missing Fields. Failed to Update Invoice.''\<rparr>,
           effects = []\<rparr>
      | Success d \<Rightarrow>
          (let amountInCents = js_mul (amount d) (Fin 100);
               stmt = UPDATE_invoices (customerId d) amountInCents (status d) id'
           in if \<not> sql_resolves env stmt then
                \<lparr>outcome = Returns \<lparr>errors = None,
                                     message = Some ''Database Error: Failed to Update Invoice.''\<rparr>,
                 effects = [Sql stmt]\<rparr>
              else
                \<lparr>outcome = Redirects ''/dashboard/invoices'',
                 effects = [Sql stmt, RevalidatePath ''/dashboard/invoices'',
                            Redirect ''/dashboard/invoices'']\<rparr>))"

text \<open>\<^verbatim>\<open>deleteInvoice\<close> awaits the statement outside any \<^verbatim>\<open>try\<close>: when the store throws,
  the error leaves the function and the next line is not reached.\<close>

definition deleteInvoice :: "env \<Rightarrow> string \<Rightarrow> result" where
  "deleteInvoice env id' =
     (let stmt = DELETE_invoices id'
      in if \<not> sql_resolves env stmt then \<lparr>outcome = Throws, effects = [Sql stmt]\<rparr>
         else \<lparr>outcome = ReturnsVoid,
               effects = [Sql stmt, RevalidatePath ''/dashboard/invoices'']\<rparr>)"

text \<open>\<^verbatim>\<open>createCustomer\<close> hands \<^verbatim>\<open>CreateCustomer.safeParse\<close> an object with the keys
  \<^verbatim>\<open>name\<close>, \<^verbatim>\<open>email\<close> and \<^verbatim>\<open>image_url\<close>; the key \<^verbatim>\<open>image_upload\<close> of the schema
  reads \<^verbatim>\<open>undefined\<close>. \<^verbatim>\<open>safeParse\<close> is called outside any \<^verbatim>\<open>try\<close>: what it throws
  leaves the action.\<close>

definition createCustomer :: "env \<Rightarrow> formData \<Rightarrow> result" where
  "createCustomer env fd =
     (case CreateCustomer_safeParse (emailRegex env) (formData_get fd ''name'')
             (formData_get fd ''email'') (formData_get fd ''image_url'') Undefined of
        Inl err \<Rightarrow> \<lparr>outcome = Rejects err, effects = []\<rparr>
      | Inr (Failure issues) \<Rightarrow>
          \<lparr>outcome = Returns \<lparr>errors = Some (flatten_fieldErrors issues),
                               message = Some ''Missing Fields. Failed to Create Invoice.''\<rparr>,
           effects = []\<rparr>
      | Inr (Success d) \<Rightarrow>
          (let stmt = INSERT_customers (name d) (email d) (image_url d)
           in if \<not> sql_resolves env stmt then
                \<lparr>outcome = Returns \<lparr>errors = None,
                                     message = Some ''Database Error: Failed to Create Customer.''\<rparr>,
                 effects = [Sql stmt]\<rparr>
              else
                \<lparr>outcome = Redirects ''/dashboard/customers'',
                 effects = [Sql stmt, RevalidatePath ''/dashboard/customers'',
                            Redirect ''/dashboard/customers'']\<rparr>))"

definition updateCustomer :: "env \<Rightarrow> string \<Rightarrow> formData \<Rightarrow> result" where
  "updateCustomer env id' fd =
     (case UpdateCustomer_safeParse (emailRegex env) (formData_get fd ''name'')
             (formData_get fd ''email'') (formData_get fd ''image_url'')
             (formData_get fd ''image_upload'') of
        Inl err \<Rightarrow> \<lparr>outcome = Rejects err, effects = []\<rparr>
      | Inr (Failure issues) \<Rightarrow>
          \<lparr>outcome = Returns \<lparr>errors = Some (flatten_fieldErrors issues),
                               message = Some ''Missing Fields. Failed to Update Invoice.''\<rparr>,
           effects = []\<rparr>
      | Inr (Success d) \<Rightarrow>
          (let file = formData_get fd ''image_upload''
           in if \<not> truthy file then
                \<lparr>outcome = Returns \<lparr>errors = None, message = Some ''No files received.''\<rparr>,
                 effects = []\<rparr>
              else
                (let buffer = file_content (image_upload d);
                     filename = sanitizeAndTimestampFilename (now env) (file_name (image_upload d));
                     target = [cwd env, ''/public/customers/'' @ filename];
                     written = [ConsoleLog [filename], WriteFile target buffer]
                 in if \<not> writeFile_resolves env target buffer then
                      \<lparr>outcome = Returns \<lparr>errors = None,
                                           message = Some ''Error occured al grabar archivo.''\<rparr>,
                       effects = written @ [ConsoleLog [''Error occured '']]\<rparr>
                    else
                      (let stmt = UPDATE_customers (name d) (email d) (''/customers/'' @ filename) id';
                           sent = written @ [ConsoleLog [''archivo subido correctamente'', filename],
                                             Sql stmt]
                       in if \<not> sql_resolves env stmt then
                            \<lparr>outcome = Returns \<lparr>errors = None,
                                                 message = Some ''Database Error: Failed to Update Customer.''\<rparr>,
                             effects = sent @ [ConsoleLog [''Error occured '', filename]]\<rparr>
                          else
                            \<lparr>outcome = Redirects ''/dashboard/customers'',
                             effects = sent @ [RevalidatePath ''/dashboard/customers'',
                                               Redirect ''/dashboard/customers'']\<rparr>))))"

definition deleteCustomer :: "env \<Rightarrow> string \<Rightarrow> result" where
  "deleteCustomer env id' =
     (let stmt = DELETE_customers id'
      in if \<not> sql_resolves env stmt then \<lparr>outcome = Throws, effects = [Sql stmt]\<rparr>
         else \<lparr>outcome = ReturnsVoid,
               effects = [Sql stmt, RevalidatePath ''/dashboard/customers'']\<rparr>)"

text \<open>The six mutation operations as one type, to state a property of all of them.\<close>

datatype call =
    Call_createInvoice formData
  | Call_updateInvoice string formData
  | Call_deleteInvoice string
  | Call_createCustomer formData
  | Call_updateCustomer string formData
  | Call_deleteCustomer string

fun run :: "env \<Rightarrow> call \<Rightarrow> result" where
  "run env (Call_createInvoice fd) = createInvoice env fd"
| "run env (Call_updateInvoice id' fd) = updateInvoice env id' fd"
| "run env (Call_deleteInvoice id') = deleteInvoice env id'"
| "run env (Call_createCustomer fd) = createCustomer env fd"
| "run env (Call_updateCustomer id' fd) = updateCustomer env id' fd"
| "run env (Call_deleteCustomer id') = deleteCustomer env id'"

section \<open>The store and what a caller observes\<close>

text \<open>Modelled from the spec: the declarations of the two tables are not in the source.
  The store interface of the specification gives them as
  \<^verbatim>\<open>invoices(id, customer_id, amount, status, date)\<close> and
  \<^verbatim>\<open>customers(id, name, email, image_url)\<close>, and each statement as a single atomic one:
  the store executes it as a whole, or throws and changes nothing.\<close>

record invoice_row =
  inv_id :: string
  inv_customer_id :: string
  inv_amount :: jsnum
  inv_status :: string
  inv_date :: string

record customer_row =
  cust_id :: string
  cust_name :: string
  cust_email :: string
  cust_image_url :: string

record store =
  invoices :: "invoice_row list"
  customers :: "customer_row list"

text \<open>The effect of a statement on the tables, as SQL defines it; \<open>fresh\<close> is the
  identifier the store gives to an inserted row.\<close>

fun exec :: "string \<Rightarrow> statement \<Rightarrow> store \<Rightarrow> store" where
  "exec fresh (INSERT_invoices c a s d) db =
     db\<lparr>invoices := invoices db @
          [\<lparr>inv_id = fresh, inv_customer_id = c, inv_amount = a, inv_status = s, inv_date = d\<rparr>]\<rparr>"
| "exec fresh (UPDATE_invoices c a s i) db =
     db\<lparr>invoices :=
          map (\<lambda>r. if inv_id r = i
                    then r\<lparr>inv_customer_id := c, inv_amount := a, inv_status := s\<rparr> else r)
            (invoices db)\<rparr>"
| "exec fresh (DELETE_invoices i) db =
     db\<lparr>invoices := filter (\<lambda>r. inv_id r \<noteq> i) (invoices db)\<rparr>"
| "exec fresh (INSERT_customers n e u) db =
     db\<lparr>customers := customers db @
          [\<lparr>cust_id = fresh, cust_name = n, cust_email = e, cust_image_url = u\<rparr>]\<rparr>"
| "exec fresh (UPDATE_customers n e u i) db =
     db\<lparr>customers :=
          map (\<lambda>r. if cust_id r = i
                    then r\<lparr>cust_name := n, cust_email := e, cust_image_url := u\<rparr> else r)
            (customers db)\<rparr>"
| "exec fresh (DELETE_customers i) db =
     db\<lparr>customers := filter (\<lambda>r. cust_id r \<noteq> i) (customers db)\<rparr>"

fun sql_of :: "event \<Rightarrow> statement list" where
  "sql_of (Sql s) = [s]"
| "sql_of e = []"

fun revalidated_of :: "event \<Rightarrow> string list" where
  "revalidated_of (RevalidatePath p) = [p]"
| "revalidated_of e = []"

fun redirected_of :: "event \<Rightarrow> string list" where
  "redirected_of (Redirect p) = [p]"
| "redirected_of e = []"

text \<open>The statements sent, the views invalidated and the navigations of an
  invocation.\<close>

definition sql_statements :: "result \<Rightarrow> statement list" where
  "sql_statements r = concat (map sql_of (effects r))"

definition invalidations :: "result \<Rightarrow> string list" where
  "invalidations r = concat (map revalidated_of (effects r))"

definition navigations :: "result \<Rightarrow> string list" where
  "navigations r = concat (map redirected_of (effects r))"

text \<open>The store after an invocation: the statements that completed, executed in
  order.\<close>

definition store_after :: "env \<Rightarrow> string \<Rightarrow> result \<Rightarrow> store \<Rightarrow> store" where
  "store_after env fresh r db =
     foldl (\<lambda>db' s. if sql_resolves env s then exec fresh s db' else db') db (sql_statements r)"

text \<open>\<^verbatim>\<open>state.errors?.[field]\<close>, as the form reads the returned state.\<close>

definition fieldErrors_of :: "result \<Rightarrow> string \<Rightarrow> string list option" where
  "fieldErrors_of r field =
     (case outcome r of
        Returns st \<Rightarrow> (case errors st of None \<Rightarrow> None | Some fe \<Rightarrow> map_of fe field)
      | _ \<Rightarrow> None)"

definition message_of :: "result \<Rightarrow> string option" where
  "message_of r = (case outcome r of Returns st \<Rightarrow> message st | _ \<Rightarrow> None)"

text \<open>Every invalidation and every navigation of a trace comes after a statement that
  the store completed; \<open>done\<close> tells whether one has completed so far.\<close>

fun after_mutation :: "env \<Rightarrow> bool \<Rightarrow> event list \<Rightarrow> bool" where
  "after_mutation env done [] = True"
| "after_mutation env done (Sql s # es) = after_mutation env (done \<or> sql_resolves env s) es"
| "after_mutation env done (RevalidatePath p # es) = (done \<and> after_mutation env done es)"
| "after_mutation env done (Redirect p # es) = (done \<and> after_mutation env done es)"
| "after_mutation env done (WriteFile t b # es) = after_mutation env done es"
| "after_mutation env done (ConsoleLog ss # es) = after_mutation env done es"

text \<open>The message a create or update operation returns when the store throws.\<close>

fun database_error :: "call \<Rightarrow> string option" where
  "database_error (Call_createInvoice fd) = Some ''Database Error: Failed to Create Invoice.''"
| "database_error (Call_updateInvoice i fd) = Some ''Database Error: Failed to Update Invoice.''"
| "database_error (Call_createCustomer fd) = Some ''Database Error: Failed to Create Customer.''"
| "database_error (Call_updateCustomer i fd) = Some ''Database Error: Failed to Update Customer.''"
| "database_error (Call_deleteInvoice i) = None"
| "database_error (Call_deleteCustomer i) = None"

subsection \<open>Example environments\<close>

text \<open>The email pattern of zod 3.22,
  \<^verbatim>\<open>/^(?!\.)(?!.*\.\.)([A-Z0-9_'+\-\.]*)[A-Z0-9_+-]@([A-Z0-9][A-Z0-9\-]*\.)+[A-Z]{2,}$/i\<close>,
  used by the example environments.\<close>

definition is_alpha :: "char \<Rightarrow> bool" where
  "is_alpha c = (let n = of_char c :: nat in (97 \<le> n \<and> n \<le> 122) \<or> (65 \<le> n \<and> n \<le> 90))"

definition is_alnum :: "char \<Rightarrow> bool" where
  "is_alnum c = (let n = of_char c :: nat in is_alpha c \<or> (48 \<le> n \<and> n \<le> 57))"

fun split_on :: "char \<Rightarrow> string \<Rightarrow> string list" where
  "split_on c [] = [[]]"
| "split_on c (x # xs) =
     (if x = c then [] # split_on c xs
      else (case split_on c xs of [] \<Rightarrow> [[x]] | y # ys \<Rightarrow> (x # y) # ys))"

fun has_dotdot :: "string \<Rightarrow> bool" where
  "has_dotdot (a # b # r) = ((a = CHR ''.'' \<and> b = CHR ''.'') \<or> has_dotdot (b # r))"
| "has_dotdot r = False"

definition email_pattern :: "string \<Rightarrow> bool" where
  "email_pattern s =
     (case split_on (CHR ''@'') s of
        [local, domain] \<Rightarrow>
          local \<noteq> [] \<and> hd s \<noteq> CHR ''.'' \<and> \<not> has_dotdot s
          \<and> list_all (\<lambda>c. is_alnum c \<or> c \<in> set ''_+-.'' \<or> c = CHR 0x27) local
          \<and> (is_alnum (last local) \<or> last local \<in> set ''_+-'')
          \<and> (let labels = split_on (CHR ''.'') domain
             in 2 \<le> length labels
                \<and> list_all (\<lambda>l. l \<noteq> [] \<and> is_alnum (hd l)
                                 \<and> list_all (\<lambda>c. is_alnum c \<or> c = CHR ''-'') l) (butlast labels)
                \<and> 2 \<le> length (last labels) \<and> list_all is_alpha (last labels))
      | _ \<Rightarrow> False)"

definition example_now :: date where
  "example_now =
     \<lparr>getFullYear = 2026, getMonth = 10, getDate = 3, getHours = 9, getMinutes = 5,
      getSeconds = 7, getMilliseconds = 42,
      getUTCFullYear = 2026, getUTCMonth = 10, getUTCDate = 3\<rparr>"

text \<open>An environment where the store and the file system complete every request.\<close>

definition env_ok :: env where
  "env_ok = \<lparr>now = example_now, cwd = ''/app'', emailRegex = email_pattern,
             sql_resolves = (\<lambda>s. True), writeFile_resolves = (\<lambda>t b. True)\<rparr>"

text \<open>An environment where the store throws on every statement.\<close>

definition env_store_down :: env where
  "env_store_down = env_ok\<lparr>sql_resolves := (\<lambda>s. False)\<rparr>"

text \<open>An environment where every file write throws.\<close>

definition env_disk_full :: env where
  "env_disk_full = env_ok\<lparr>writeFile_resolves := (\<lambda>t b. False)\<rparr>"

definition example_photo :: jsfile where
  "example_photo =
     \<lparr>file_name = ''My Photo.JPG'', file_size = 2 * 1024 * 1024, file_type = ''image/jpeg'',
      file_content = [255, 216, 255]\<rparr>"

definition example_invoice_form :: formData where
  "example_invoice_form =
     [(''customerId'', FString ''c1''), (''amount'', FString ''10.50''),
      (''status'', FString ''pending'')]"

definition example_customer_form :: formData where
  "example_customer_form =
     [(''name'', FString ''Ada''), (''email'', FString ''ada@example.com''),
      (''image_url'', FString ''/customers/ada.png''), (''image_upload'', FFile example_photo)]"

definition example_store :: store where
  "example_store =
     \<lparr>invoices =
        [\<lparr>inv_id = ''7'', inv_customer_id = ''c0'', inv_amount = Fin 2000, inv_status = ''paid'',
          inv_date = ''2024-01-15''\<rparr>,
         \<lparr>inv_id = ''8'', inv_customer_id = ''c2'', inv_amount = Fin 300, inv_status = ''pending'',
          inv_date = ''2024-02-01''\<rparr>],
      customers = []\<rparr>"

text \<open>The ranges of the getters of a \<^verbatim>\<open>Date\<close>, for a year of four digits.\<close>

definition valid_clock :: "date \<Rightarrow> bool" where
  "valid_clock d \<longleftrightarrow>
     1000 \<le> getFullYear d \<and> getFullYear d \<le> 9999 \<and> getMonth d \<le> 11
     \<and> 1 \<le> getDate d \<and> getDate d \<le> 31 \<and> getHours d \<le> 23 \<and> getMinutes d \<le> 59
     \<and> getSeconds d \<le> 59 \<and> getMilliseconds d \<le> 999"

text \<open>The decimal numeral of exactly \<open>k\<close> digits for \<open>n\<close>, with zeros to the left: what
  the fields \<^verbatim>\<open>YYYY\<close>, \<^verbatim>\<open>MM\<close>, \<^verbatim>\<open>DD\<close>, \<^verbatim>\<open>HH\<close>, \<^verbatim>\<open>MM\<close>, \<^verbatim>\<open>SS\<close> and \<^verbatim>\<open>mmm\<close> of the
  specified file name denote.\<close>

fun decimal :: "nat \<Rightarrow> nat \<Rightarrow> string" where
  "decimal 0 n = []"
| "decimal (Suc k) n = decimal k (n div 10) @ [''0123456789'' ! (n mod 10)]"

text \<open>The messages of the issues filed under one key, in order.\<close>

definition messages_for :: "string \<Rightarrow> zodIssue list \<Rightarrow> string list" where
  "messages_for k issues = map snd (filter (\<lambda>i. fst i = k) issues)"

text \<open>In a trace of \<^verbatim>\<open>updateCustomer\<close>, every statement is the customers update, and the
  file its \<^verbatim>\<open>image_url\<close> names under \<^verbatim>\<open>/public\<close> was written, without error, before
  the statement was sent; \<open>ws\<close> holds the last \<^verbatim>\<open>path.join\<close> argument of the writes that
  completed so far.\<close>

fun image_written_before :: "env \<Rightarrow> string list \<Rightarrow> event list \<Rightarrow> bool" where
  "image_written_before env ws [] = True"
| "image_written_before env ws (WriteFile t b # es) =
     image_written_before env (if writeFile_resolves env t b then last t # ws else ws) es"
| "image_written_before env ws (Sql (UPDATE_customers n e u i) # es) =
     (''/public'' @ u \<in> set ws \<and> image_written_before env ws es)"
| "image_written_before env ws (Sql s # es) = False"
| "image_written_before env ws (RevalidatePath p # es) = image_written_before env ws es"
| "image_written_before env ws (Redirect p # es) = image_written_before env ws es"
| "image_written_before env ws (ConsoleLog ss # es) = image_written_before env ws es"

section \<open>Lemmas on \<^verbatim>\<open>fieldErrors\<close>\<close>

lemma map_of_map_append:
  "map_of (map (\<lambda>(k, ms). if k = k' then (k, ms @ [m]) else (k, ms)) fe) k =
     (if k = k' then map_option (\<lambda>ms. ms @ [m]) (map_of fe k) else map_of fe k)"
  by (induction fe) auto

lemma map_of_push_issue:
  "map_of (push_issue fe (k', m)) k =
     (if k = k' then Some (case map_of fe k of None \<Rightarrow> [m] | Some ms \<Rightarrow> ms @ [m])
      else map_of fe k)"
proof (cases "k' \<in> fst ` set fe")
  case True
  then obtain ms where "map_of fe k' = Some ms"
    by (metis domD dom_map_of_conv_image_fst)
  with True show ?thesis
    by (simp add: push_issue_def map_of_map_append)
next
  case False
  then have "map_of fe k' = None"
    by (simp add: map_of_eq_None_iff)
  with False show ?thesis
    by (auto simp: push_issue_def map_add_def split: option.splits)
qed

lemma map_of_foldl_push_issue:
  "map_of (foldl push_issue fe issues) k =
     (case map_of fe k of
        None \<Rightarrow> (if messages_for k issues = [] then None else Some (messages_for k issues))
      | Some ms \<Rightarrow> Some (ms @ messages_for k issues))"
proof (induction issues arbitrary: fe)
  case Nil
  then show ?case by (simp add: messages_for_def split: option.splits)
next
  case (Cons i issues)
  obtain k' m where i: "i = (k', m)" by (cases i)
  show ?case
    by (simp add: Cons.IH i map_of_push_issue messages_for_def split: option.splits)
qed

text \<open>The flattened errors of a key are the messages of its issues, and the key is absent
  when it has none.\<close>

lemma map_of_flatten_fieldErrors:
  "map_of (flatten_fieldErrors issues) k =
     (if messages_for k issues = [] then None else Some (messages_for k issues))"
  by (simp add: flatten_fieldErrors_def map_of_foldl_push_issue)

lemma messages_for_append [simp]:
  "messages_for k (xs @ ys) = messages_for k xs @ messages_for k ys"
  by (simp add: messages_for_def)

lemma messages_for_field_issues [simp]:
  "messages_for k (field_issues k' p) =
     (if k = k' then (case p of Valid x \<Rightarrow> [] | Invalid ms \<Rightarrow> ms) else [])"
  by (auto simp: messages_for_def field_issues_def comp_def split: parsed.splits)

section \<open>Invoice amounts that are rejected\<close>

lemma CreateInvoice_safeParse_amount_Invalid:
  assumes "FormSchema_amount amt = Invalid ms"
  shows "\<exists>issues. CreateInvoice_safeParse cid amt st = Failure issues
           \<and> messages_for ''amount'' issues = ms"
  using assms
  by (auto simp: CreateInvoice_safeParse_def split: parsed.splits)

lemma invoice_actions_amount_Invalid:
  assumes "FormSchema_amount (formData_get fd ''amount'') = Invalid ms" and "ms \<noteq> []"
    and "r = createInvoice env fd \<or> r = updateInvoice env id' fd"
  shows "fieldErrors_of r ''amount'' = Some ms \<and> effects r = []"
proof -
  obtain issues where issues:
    "CreateInvoice_safeParse (formData_get fd ''customerId'') (formData_get fd ''amount'')
       (formData_get fd ''status'') = Failure issues"
    "messages_for ''amount'' issues = ms"
    using CreateInvoice_safeParse_amount_Invalid [OF assms(1)] by blast
  from assms(3) show ?thesis
  proof
    assume "r = createInvoice env fd"
    with issues assms(2) show ?thesis
      by (simp add: createInvoice_def fieldErrors_of_def map_of_flatten_fieldErrors)
  next
    assume "r = updateInvoice env id' fd"
    with issues assms(2) show ?thesis
      by (simp add: updateInvoice_def UpdateInvoice_safeParse_def fieldErrors_of_def
          map_of_flatten_fieldErrors)
  qed
qed

text \<open>
  C1 (as amended). For every submission to \<^verbatim>\<open>createInvoice\<close> or \<^verbatim>\<open>updateInvoice\<close>: when
  the amount field coerces to a number that is at most 0 (a missing or empty field coerces
  to 0), the action returns a failure whose \<^verbatim>\<open>fieldErrors.amount\<close> is
  \<^verbatim>\<open>["Please enter an amount greater than $0."]\<close>; when the amount is not numeric (it
  coerces to \<^verbatim>\<open>NaN\<close>), the action returns a failure whose \<^verbatim>\<open>fieldErrors.amount\<close> is
  \<^verbatim>\<open>["Expected number, received nan"]\<close>, the type issue that zod raises before the
  \<^verbatim>\<open>gt\<close> check runs. In both cases no statement is sent to the store.
\<close>

theorem invoice_amount_rejected:
  assumes "r = createInvoice env fd \<or> r = updateInvoice env id' fd"
  shows "(js_le_zero (Number (formData_get fd ''amount'')) \<longrightarrow>
            fieldErrors_of r ''amount'' = Some [''Please enter an amount greater than $0.'']
            \<and> sql_statements r = [])
       \<and> (Number (formData_get fd ''amount'') = NaN \<longrightarrow>
            fieldErrors_of r ''amount'' = Some [''Expected number, received nan'']
            \<and> sql_statements r = [])"
proof (intro conjI impI)
  assume le: "js_le_zero (Number (formData_get fd ''amount''))"
  then have "Number (formData_get fd ''amount'') \<noteq> NaN" by auto
  with le have "FormSchema_amount (formData_get fd ''amount'') =
      Invalid [''Please enter an amount greater than $0.'']"
    by (simp add: FormSchema_amount_def z_coerce_number_gt0_def)
  from invoice_actions_amount_Invalid [OF this _ assms]
  show "fieldErrors_of r ''amount'' = Some [''Please enter an amount greater than $0.'']"
    and "sql_statements r = []"
    by (simp_all add: sql_statements_def)
next
  assume "Number (formData_get fd ''amount'') = NaN"
  then have "FormSchema_amount (formData_get fd ''amount'') =
      Invalid [''Expected number, received nan'']"
    by (simp add: FormSchema_amount_def z_coerce_number_gt0_def)
  from invoice_actions_amount_Invalid [OF this _ assms]
  show "fieldErrors_of r ''amount'' = Some [''Expected number, received nan'']"
    and "sql_statements r = []"
    by (simp_all add: sql_statements_def)
qed

text \<open>Scenario 2 of the specification (the amount \<^verbatim>\<open>"0"\<close>), and an update whose amount
  is \<^verbatim>\<open>"abc"\<close>.\<close>

theorem invoice_amount_rejected_witness:
  "js_le_zero (Number (formData_get [(''amount'', FString ''0'')] ''amount''))
   \<and> fieldErrors_of (createInvoice env_ok [(''amount'', FString ''0'')]) ''amount''
       = Some [''Please enter an amount greater than $0.'']
   \<and> sql_statements (createInvoice env_ok [(''amount'', FString ''0'')]) = []
   \<and> Number (formData_get [(''amount'', FString ''abc'')] ''amount'') = NaN
   \<and> fieldErrors_of (updateInvoice env_ok ''7'' [(''amount'', FString ''abc'')]) ''amount''
       = Some [''Expected number, received nan'']
   \<and> sql_statements (updateInvoice env_ok ''7'' [(''amount'', FString ''abc'')]) = []"
proof -
  have z: "js_le_zero (Number (formData_get [(''amount'', FString ''0'')] ''amount''))"
    by code_simp
  have n: "Number (formData_get [(''amount'', FString ''abc'')] ''amount'') = NaN"
    by code_simp
  from z n
    invoice_amount_rejected [of "createInvoice env_ok [(''amount'', FString ''0'')]" env_ok
      "[(''amount'', FString ''0'')]" "''7''"]
    invoice_amount_rejected [of "updateInvoice env_ok ''7'' [(''amount'', FString ''abc'')]" env_ok
      "[(''amount'', FString ''abc'')]" "''7''"]
  show ?thesis by blast
qed

text \<open>The claim as first stated fails on a non-numeric amount: the message is not the one
  of the \<^verbatim>\<open>gt\<close> check.\<close>

theorem non_numeric_amount_counterexample:
  "Number (formData_get [(''customerId'', FString ''c1''), (''amount'', FString ''abc''),
                         (''status'', FString ''pending'')] ''amount'') = NaN
   \<and> fieldErrors_of (createInvoice env_ok
         [(''customerId'', FString ''c1''), (''amount'', FString ''abc''),
          (''status'', FString ''pending'')]) ''amount''
       \<noteq> Some [''Please enter an amount greater than $0.'']"
  by code_simp

section \<open>The examples, evaluated\<close>

lemma example_customer_form_get:
  "formData_get example_customer_form ''name'' = Str ''Ada''"
  "formData_get example_customer_form ''email'' = Str ''ada@example.com''"
  "formData_get example_customer_form ''image_url'' = Str ''/customers/ada.png''"
  "formData_get example_customer_form ''image_upload'' = FileV example_photo"
  by (simp_all add: formData_get_def example_customer_form_def)

lemma email_pattern_example: "email_pattern ''ada@example.com''"
  by code_simp

lemma image_upload_example:
  "FormSchemaCustomer_image_upload (FileV example_photo) = Inr (Valid example_photo)"
  by (simp add: FormSchemaCustomer_image_upload_def image_upload_transform_def
      image_upload_superRefine_def example_photo_def)

lemma UpdateCustomer_safeParse_example:
  "UpdateCustomer_safeParse email_pattern (Str ''Ada'') (Str ''ada@example.com'')
     (Str ''/customers/ada.png'') (FileV example_photo)
   = Inr (Success \<lparr>name = ''Ada'', email = ''ada@example.com'',
                     image_url = ''/customers/ada.png'', image_upload = example_photo\<rparr>)"
  by (simp add: UpdateCustomer_safeParse_def CreateCustomer_safeParse_def FormSchemaCustomer_name_def
      FormSchemaCustomer_email_def FormSchemaCustomer_image_url_def z_string_def z_string_email_def
      email_pattern_example image_upload_example)

lemma extname_example: "extname ''My Photo.JPG'' = ''.JPG''" by code_simp
lemma basename_example: "basename ''My Photo.JPG'' ''.JPG'' = ''My Photo''" by code_simp
lemma timestamp_example: "timestamp example_now = ''20261103_090507_042''" by code_simp
lemma replace_example: "map (\<lambda>c. if kept_char c then c else CHR ''_'') ''My Photo'' = ''My_Photo''" by code_simp
lemma sanitize_example: "sanitizeAndTimestampFilename example_now ''My Photo.JPG'' = ''My_Photo_20261103_090507_042.JPG''"
  unfolding sanitizeAndTimestampFilename_def Let_def extname_example basename_example timestamp_example replace_example
  by simp

lemma example_env_fields:
  "now env_ok = example_now" "cwd env_ok = ''/app''" "emailRegex env_ok = email_pattern"
  "sql_resolves env_ok = (\<lambda>s. True)" "writeFile_resolves env_ok = (\<lambda>t b. True)"
  "now env_store_down = example_now" "cwd env_store_down = ''/app''"
  "emailRegex env_store_down = email_pattern"
  "sql_resolves env_store_down = (\<lambda>s. False)" "writeFile_resolves env_store_down = (\<lambda>t b. True)"
  "now env_disk_full = example_now" "cwd env_disk_full = ''/app''"
  "emailRegex env_disk_full = email_pattern"
  "sql_resolves env_disk_full = (\<lambda>s. True)" "writeFile_resolves env_disk_full = (\<lambda>t b. False)"
  by (simp_all add: env_ok_def env_store_down_def env_disk_full_def)

lemma example_photo_fields:
  "file_name example_photo = ''My Photo.JPG''" "file_content example_photo = [255, 216, 255]"
  by (simp_all add: example_photo_def)

lemma updateCustomer_disk_full:
  "updateCustomer env_disk_full ''7'' example_customer_form =
     \<lparr>outcome = Returns \<lparr>errors = None, message = Some ''Error occured al grabar archivo.''\<rparr>,
      effects = [ConsoleLog [''My_Photo_20261103_090507_042.JPG''],
                 WriteFile [''/app'', ''/public/customers/My_Photo_20261103_090507_042.JPG'']
                   [255, 216, 255],
                 ConsoleLog [''Error occured '']]\<rparr>"
  unfolding updateCustomer_def example_customer_form_get example_env_fields
    UpdateCustomer_safeParse_example
  by (simp add: Let_def example_photo_fields sanitize_example)

lemma updateCustomer_store_down:
  "updateCustomer env_store_down ''7'' example_customer_form =
     \<lparr>outcome = Returns \<lparr>errors = None, message = Some ''Database Error: Failed to Update Customer.''\<rparr>,
      effects = [ConsoleLog [''My_Photo_20261103_090507_042.JPG''],
                 WriteFile [''/app'', ''/public/customers/My_Photo_20261103_090507_042.JPG'']
                   [255, 216, 255],
                 ConsoleLog [''archivo subido correctamente'', ''My_Photo_20261103_090507_042.JPG''],
                 Sql (UPDATE_customers ''Ada'' ''ada@example.com''
                        ''/customers/My_Photo_20261103_090507_042.JPG'' ''7''),
                 ConsoleLog [''Error occured '', ''My_Photo_20261103_090507_042.JPG'']]\<rparr>"
  unfolding updateCustomer_def example_customer_form_get example_env_fields
    UpdateCustomer_safeParse_example
  by (simp add: Let_def example_photo_fields sanitize_example)

lemma updateCustomer_ok:
  "updateCustomer env_ok ''7'' example_customer_form =
     \<lparr>outcome = Redirects ''/dashboard/customers'',
      effects = [ConsoleLog [''My_Photo_20261103_090507_042.JPG''],
                 WriteFile [''/app'', ''/public/customers/My_Photo_20261103_090507_042.JPG'']
                   [255, 216, 255],
                 ConsoleLog [''archivo subido correctamente'', ''My_Photo_20261103_090507_042.JPG''],
                 Sql (UPDATE_customers ''Ada'' ''ada@example.com''
                        ''/customers/My_Photo_20261103_090507_042.JPG'' ''7''),
                 RevalidatePath ''/dashboard/customers'', Redirect ''/dashboard/customers'']\<rparr>"
  unfolding updateCustomer_def example_customer_form_get example_env_fields
    UpdateCustomer_safeParse_example
  by (simp add: Let_def example_photo_fields sanitize_example)

section \<open>A failed file write prevents the customers update\<close>

text \<open>
  C2. In \<^verbatim>\<open>updateCustomer\<close>, if the write of the uploaded image fails, the action returns
  the failure message \<^verbatim>\<open>Error occured al grabar archivo.\<close> and no statement is sent to
  the store. The order holds in every trace: a customers update is sent only after the
  write of the file its \<^verbatim>\<open>image_url\<close> names has completed.
\<close>

theorem updateCustomer_write_failure:
  assumes "r = updateCustomer env id' fd"
  shows "(\<forall>t b. WriteFile t b \<in> set (effects r) \<and> \<not> writeFile_resolves env t b \<longrightarrow>
            outcome r = Returns \<lparr>errors = None, message = Some ''Error occured al grabar archivo.''\<rparr>
            \<and> sql_statements r = [])
       \<and> image_written_before env [] (effects r)"
  unfolding assms updateCustomer_def sql_statements_def
  by (simp add: Let_def split: sum.splits safeParseReturn.splits)

text \<open>The upload of \<^verbatim>\<open>My Photo.JPG\<close> on a full disk, and the same upload when the write
  completes.\<close>

theorem updateCustomer_write_failure_witness:
  "WriteFile [''/app'', ''/public/customers/My_Photo_20261103_090507_042.JPG''] [255, 216, 255]
     \<in> set (effects (updateCustomer env_disk_full ''7'' example_customer_form))
   \<and> \<not> writeFile_resolves env_disk_full
         [''/app'', ''/public/customers/My_Photo_20261103_090507_042.JPG''] [255, 216, 255]
   \<and> outcome (updateCustomer env_disk_full ''7'' example_customer_form)
       = Returns \<lparr>errors = None, message = Some ''Error occured al grabar archivo.''\<rparr>
   \<and> sql_statements (updateCustomer env_disk_full ''7'' example_customer_form) = []
   \<and> image_written_before env_ok [] (effects (updateCustomer env_ok ''7'' example_customer_form))
   \<and> sql_statements (updateCustomer env_ok ''7'' example_customer_form)
       = [UPDATE_customers ''Ada'' ''ada@example.com''
            ''/customers/My_Photo_20261103_090507_042.JPG'' ''7'']"
proof -
  have w: "WriteFile [''/app'', ''/public/customers/My_Photo_20261103_090507_042.JPG''] [255, 216, 255]
     \<in> set (effects (updateCustomer env_disk_full ''7'' example_customer_form))"
    by (simp add: updateCustomer_disk_full)
  have f: "\<not> writeFile_resolves env_disk_full
         [''/app'', ''/public/customers/My_Photo_20261103_090507_042.JPG''] [255, 216, 255]"
    by (simp add: example_env_fields)
  have s: "sql_statements (updateCustomer env_ok ''7'' example_customer_form)
       = [UPDATE_customers ''Ada'' ''ada@example.com''
            ''/customers/My_Photo_20261103_090507_042.JPG'' ''7'']"
    by (simp add: updateCustomer_ok sql_statements_def)
  from w f s updateCustomer_write_failure [of "updateCustomer env_disk_full ''7'' example_customer_form"
      env_disk_full "''7''" example_customer_form]
    updateCustomer_write_failure [of "updateCustomer env_ok ''7'' example_customer_form"
      env_ok "''7''" example_customer_form]
  show ?thesis by blast
qed

lemma example_invoice_form_get:
  "formData_get example_invoice_form ''customerId'' = Str ''c1''"
  "formData_get example_invoice_form ''amount'' = Str ''10.50''"
  "formData_get example_invoice_form ''status'' = Str ''pending''"
  by (simp_all add: formData_get_def example_invoice_form_def)

lemma CreateInvoice_safeParse_example:
  "CreateInvoice_safeParse (Str ''c1'') (Str ''10.50'') (Str ''pending'')
   = Success \<lparr>customerId = ''c1'', amount = Fin (21 / 2), status = ''pending''\<rparr>"
  by code_simp

lemma amountInCents_example: "js_mul (Fin (21 / 2)) (Fin 100) = Fin 1050"
  by code_simp

lemma to_double_example: "to_double 1050 = Fin 1050"
  by code_simp

lemma isoDate_example: "isoDate example_now = ''2026-11-03''"
  by code_simp

lemma createInvoice_ok:
  "createInvoice env_ok example_invoice_form =
     \<lparr>outcome = Redirects ''/dashboard/invoices'',
      effects = [Sql (INSERT_invoices ''c1'' (Fin 1050) ''pending'' ''2026-11-03''),
                 RevalidatePath ''/dashboard/invoices'', Redirect ''/dashboard/invoices'']\<rparr>"
  unfolding createInvoice_def example_invoice_form_get example_env_fields
    CreateInvoice_safeParse_example
  by (simp add: Let_def to_double_example isoDate_example)

lemma createInvoice_store_down:
  "createInvoice env_store_down example_invoice_form =
     \<lparr>outcome = Returns \<lparr>errors = None,
                           message = Some ''Database Error: Failed to Create Invoice.''\<rparr>,
      effects = [Sql (INSERT_invoices ''c1'' (Fin 1050) ''pending'' ''2026-11-03'')]\<rparr>"
  unfolding createInvoice_def example_invoice_form_get example_env_fields
    CreateInvoice_safeParse_example
  by (simp add: Let_def to_double_example isoDate_example)

lemma updateInvoice_ok:
  "updateInvoice env_ok ''7'' example_invoice_form =
     \<lparr>outcome = Redirects ''/dashboard/invoices'',
      effects = [Sql (UPDATE_invoices ''c1'' (Fin 1050) ''pending'' ''7''),
                 RevalidatePath ''/dashboard/invoices'', Redirect ''/dashboard/invoices'']\<rparr>"
  unfolding updateInvoice_def UpdateInvoice_safeParse_def example_invoice_form_get
    example_env_fields CreateInvoice_safeParse_example
  by (simp add: Let_def to_double_example)

section \<open>Store failures\<close>

text \<open>\<^verbatim>\<open>CreateCustomer\<close> keeps the key \<^verbatim>\<open>image_upload\<close> of \<^verbatim>\<open>FormSchemaCustomer\<close>, and
  \<^verbatim>\<open>createCustomer\<close> passes no such key: on every submission the transform is handed
  \<^verbatim>\<open>undefined\<close> and throws, so the action rejects with \<^verbatim>\<open>ReferenceError\<close> before
  anything else happens, and neither its validation message nor its insert is reached.\<close>

lemma createCustomer_rejects:
  "createCustomer env fd = \<lparr>outcome = Rejects ReferenceError, effects = []\<rparr>"
  by (simp add: createCustomer_def CreateCustomer_safeParse_def
      FormSchemaCustomer_image_upload_def image_upload_transform_def)

lemma createCustomer_sends_nothing: "effects (createCustomer env fd) = []"
  by (simp add: createCustomer_rejects)

text \<open>\<^verbatim>\<open>updateCustomer\<close> rejects in the same way unless the field \<^verbatim>\<open>image_upload\<close> of
  the form is a file.\<close>

lemma updateCustomer_rejects:
  assumes "\<forall>f. formData_get fd ''image_upload'' \<noteq> FileV f"
  shows "updateCustomer env id' fd = \<lparr>outcome = Rejects ReferenceError, effects = []\<rparr>"
  using assms
  by (simp add: updateCustomer_def UpdateCustomer_safeParse_def CreateCustomer_safeParse_def
      FormSchemaCustomer_image_upload_def image_upload_transform_def split: jsval.splits)

text \<open>
  C3 (as amended). For the four create and update operations, a failure thrown by the store
  is caught and converted into the message
  \<^verbatim>\<open>Database Error: Failed to <Create|Update> <Invoice|Customer>.\<close>, and no error of the
  store reaches the caller. The two delete operations have no handler: when the store
  throws, \<^verbatim>\<open>deleteInvoice\<close> and \<^verbatim>\<open>deleteCustomer\<close> reject with that error.
\<close>

theorem store_failure_handling:
  "(case database_error c of
      Some msg \<Rightarrow>
        outcome (run env c) \<noteq> Throws
        \<and> (\<forall>s \<in> set (sql_statements (run env c)). \<not> sql_resolves env s \<longrightarrow>
              outcome (run env c) = Returns \<lparr>errors = None, message = Some msg\<rparr>)
    | None \<Rightarrow>
        (\<forall>s \<in> set (sql_statements (run env c)). \<not> sql_resolves env s \<longrightarrow>
              outcome (run env c) = Throws))"
proof (cases c)
  case (Call_createInvoice fd)
  then show ?thesis
    by (simp add: createInvoice_def sql_statements_def Let_def split: safeParseReturn.splits)
next
  case (Call_updateInvoice i fd)
  then show ?thesis
    by (simp add: updateInvoice_def sql_statements_def Let_def split: safeParseReturn.splits)
next
  case (Call_deleteInvoice i)
  then show ?thesis
    by (simp add: deleteInvoice_def sql_statements_def Let_def)
next
  case (Call_createCustomer fd)
  then show ?thesis
    by (simp add: createCustomer_rejects sql_statements_def)
next
  case (Call_updateCustomer i fd)
  then show ?thesis
    by (simp add: updateCustomer_def sql_statements_def Let_def
        split: sum.splits safeParseReturn.splits)
next
  case (Call_deleteCustomer i)
  then show ?thesis
    by (simp add: deleteCustomer_def sql_statements_def Let_def)
qed

text \<open>Scenario 5 of the specification (the insert throws), the customers update that
  throws, and a delete that throws.\<close>

theorem store_failure_handling_witness:
  "INSERT_invoices ''c1'' (Fin 1050) ''pending'' ''2026-11-03''
     \<in> set (sql_statements (run env_store_down (Call_createInvoice example_invoice_form)))
   \<and> \<not> sql_resolves env_store_down (INSERT_invoices ''c1'' (Fin 1050) ''pending'' ''2026-11-03'')
   \<and> outcome (run env_store_down (Call_createInvoice example_invoice_form))
       = Returns \<lparr>errors = None, message = Some ''Database Error: Failed to Create Invoice.''\<rparr>
   \<and> outcome (run env_store_down (Call_updateCustomer ''7'' example_customer_form))
       = Returns \<lparr>errors = None, message = Some ''Database Error: Failed to Update Customer.''\<rparr>
   \<and> DELETE_customers ''7'' \<in> set (sql_statements (run env_store_down (Call_deleteCustomer ''7'')))
   \<and> outcome (run env_store_down (Call_deleteCustomer ''7'')) = Throws"
proof -
  have a: "INSERT_invoices ''c1'' (Fin 1050) ''pending'' ''2026-11-03''
     \<in> set (sql_statements (run env_store_down (Call_createInvoice example_invoice_form)))"
    by (simp add: createInvoice_store_down sql_statements_def)
  have b: "\<not> sql_resolves env_store_down s" for s
    by (simp add: example_env_fields)
  have c: "UPDATE_customers ''Ada'' ''ada@example.com''
             ''/customers/My_Photo_20261103_090507_042.JPG'' ''7''
     \<in> set (sql_statements (run env_store_down (Call_updateCustomer ''7'' example_customer_form)))"
    by (simp add: updateCustomer_store_down sql_statements_def)
  have d: "DELETE_customers ''7''
     \<in> set (sql_statements (run env_store_down (Call_deleteCustomer ''7'')))"
    by (simp add: deleteCustomer_def sql_statements_def example_env_fields)
  from a b c d
    store_failure_handling [where c = "Call_createInvoice example_invoice_form"
      and env = env_store_down]
    store_failure_handling [where c = "Call_updateCustomer ''7'' example_customer_form"
      and env = env_store_down]
    store_failure_handling [where c = "Call_deleteCustomer ''7''" and env = env_store_down]
  show ?thesis by auto
qed

text \<open>The claim as first stated fails on the delete operations: the error of the store
  leaves \<^verbatim>\<open>deleteInvoice\<close> uncaught.\<close>

theorem delete_store_failure_counterexample:
  "sql_statements (run env_store_down (Call_deleteInvoice ''7'')) = [DELETE_invoices ''7'']
   \<and> \<not> sql_resolves env_store_down (DELETE_invoices ''7'')
   \<and> outcome (run env_store_down (Call_deleteInvoice ''7'')) = Throws"
  by (simp add: deleteInvoice_def sql_statements_def example_env_fields)

section \<open>Invalidation and navigation\<close>

lemma after_mutation_run: "after_mutation env False (effects (run env c))"
proof (cases c)
  case (Call_createInvoice fd)
  then show ?thesis
    by (simp add: createInvoice_def Let_def split: safeParseReturn.splits)
next
  case (Call_updateInvoice i fd)
  then show ?thesis
    by (simp add: updateInvoice_def Let_def split: safeParseReturn.splits)
next
  case (Call_deleteInvoice i)
  then show ?thesis
    by (simp add: deleteInvoice_def Let_def)
next
  case (Call_createCustomer fd)
  then show ?thesis
    by (simp add: createCustomer_rejects)
next
  case (Call_updateCustomer i fd)
  then show ?thesis
    by (simp add: updateCustomer_def Let_def split: sum.splits safeParseReturn.splits)
next
  case (Call_deleteCustomer i)
  then show ?thesis
    by (simp add: deleteCustomer_def Let_def)
qed

lemma no_effect_without_mutation:
  assumes "(case outcome (run env c) of
              Returns st \<Rightarrow> True | Throws \<Rightarrow> True | Rejects e \<Rightarrow> True | _ \<Rightarrow> False)
           \<or> (\<forall>s \<in> set (sql_statements (run env c)). \<not> sql_resolves env s)"
  shows "invalidations (run env c) = [] \<and> navigations (run env c) = []"
proof (cases c)
  case (Call_createInvoice fd)
  with assms show ?thesis
    by (auto simp add: createInvoice_def Let_def sql_statements_def invalidations_def
        navigations_def split: safeParseReturn.splits if_splits)
next
  case (Call_updateInvoice i fd)
  with assms show ?thesis
    by (auto simp add: updateInvoice_def Let_def sql_statements_def invalidations_def
        navigations_def split: safeParseReturn.splits if_splits)
next
  case (Call_deleteInvoice i)
  with assms show ?thesis
    by (auto simp add: deleteInvoice_def Let_def sql_statements_def invalidations_def
        navigations_def split: if_splits)
next
  case (Call_createCustomer fd)
  then show ?thesis
    by (simp add: createCustomer_sends_nothing invalidations_def navigations_def)
next
  case (Call_updateCustomer i fd)
  with assms show ?thesis
    by (auto simp add: updateCustomer_def Let_def sql_statements_def invalidations_def
        navigations_def split: sum.splits safeParseReturn.splits if_splits)
next
  case (Call_deleteCustomer i)
  with assms show ?thesis
    by (auto simp add: deleteCustomer_def Let_def sql_statements_def invalidations_def
        navigations_def split: if_splits)
qed

lemma delete_effects:
  "navigations (deleteInvoice env i) = []"
  "navigations (deleteCustomer env i) = []"
  "sql_resolves env (DELETE_invoices i) \<Longrightarrow>
     invalidations (deleteInvoice env i) = [''/dashboard/invoices'']"
  "sql_resolves env (DELETE_customers i) \<Longrightarrow>
     invalidations (deleteCustomer env i) = [''/dashboard/customers'']"
  by (simp_all add: deleteInvoice_def deleteCustomer_def navigations_def invalidations_def Let_def)

text \<open>
  C9. In every one of the six operations, \<^verbatim>\<open>revalidatePath\<close> and \<^verbatim>\<open>redirect\<close> are called
  only after a statement that the store completed. When the action returns a state (a
  validation failure, a file failure or a store failure) or rejects (with the error of the
  store or with any other), or when no statement completed, nothing is invalidated and
  nothing is navigated to. The delete operations
  never navigate, and invalidate their listing when the store completes the delete.
\<close>

theorem invalidate_and_navigate_after_mutation:
  "after_mutation env False (effects (run env c))
   \<and> ((case outcome (run env c) of
              Returns st \<Rightarrow> True | Throws \<Rightarrow> True | Rejects e \<Rightarrow> True | _ \<Rightarrow> False)
        \<or> (\<forall>s \<in> set (sql_statements (run env c)). \<not> sql_resolves env s)
       \<longrightarrow> invalidations (run env c) = [] \<and> navigations (run env c) = [])
   \<and> navigations (run env (Call_deleteInvoice i)) = []
   \<and> navigations (run env (Call_deleteCustomer i)) = []
   \<and> (sql_resolves env (DELETE_invoices i) \<longrightarrow>
        invalidations (run env (Call_deleteInvoice i)) = [''/dashboard/invoices''])
   \<and> (sql_resolves env (DELETE_customers i) \<longrightarrow>
        invalidations (run env (Call_deleteCustomer i)) = [''/dashboard/customers''])"
  using after_mutation_run [of env c] no_effect_without_mutation [of env c]
    delete_effects [of env i]
  by simp

text \<open>A validation failure (Scenario 2), a store failure (Scenario 5), a completed
  insert (Scenario 1) and a completed delete.\<close>

theorem invalidate_and_navigate_after_mutation_witness:
  "(case outcome (run env_ok (Call_createInvoice [(''amount'', FString ''0'')])) of
      Returns st \<Rightarrow> True | Throws \<Rightarrow> True | Rejects e \<Rightarrow> True | _ \<Rightarrow> False)
   \<and> invalidations (run env_ok (Call_createInvoice [(''amount'', FString ''0'')])) = []
   \<and> navigations (run env_ok (Call_createInvoice [(''amount'', FString ''0'')])) = []
   \<and> sql_statements (run env_store_down (Call_createInvoice example_invoice_form))
       = [INSERT_invoices ''c1'' (Fin 1050) ''pending'' ''2026-11-03'']
   \<and> \<not> sql_resolves env_store_down (INSERT_invoices ''c1'' (Fin 1050) ''pending'' ''2026-11-03'')
   \<and> invalidations (run env_store_down (Call_createInvoice example_invoice_form)) = []
   \<and> navigations (run env_store_down (Call_createInvoice example_invoice_form)) = []
   \<and> after_mutation env_ok False (effects (run env_ok (Call_createInvoice example_invoice_form)))
   \<and> navigations (run env_ok (Call_createInvoice example_invoice_form)) = [''/dashboard/invoices'']
   \<and> sql_resolves env_ok (DELETE_invoices ''7'')
   \<and> invalidations (run env_ok (Call_deleteInvoice ''7'')) = [''/dashboard/invoices'']
   \<and> navigations (run env_ok (Call_deleteInvoice ''7'')) = []
   \<and> sql_resolves env_ok (DELETE_customers ''7'')
   \<and> invalidations (run env_ok (Call_deleteCustomer ''7'')) = [''/dashboard/customers'']
   \<and> navigations (run env_ok (Call_deleteCustomer ''7'')) = []"
proof -
  have v: "fieldErrors_of (createInvoice env_ok [(''amount'', FString ''0'')]) ''amount''
             = Some [''Please enter an amount greater than $0.'']"
    by code_simp
  have a: "case outcome (run env_ok (Call_createInvoice [(''amount'', FString ''0'')])) of
      Returns st \<Rightarrow> True | Throws \<Rightarrow> True | Rejects e \<Rightarrow> True | _ \<Rightarrow> False"
    using v by (auto simp: fieldErrors_of_def split: outcome.splits)
  have b: "\<not> sql_resolves env_store_down s" for s
    by (simp add: example_env_fields)
  have c: "navigations (run env_ok (Call_createInvoice example_invoice_form))
             = [''/dashboard/invoices'']"
    by (simp add: createInvoice_ok navigations_def)
  have d: "sql_resolves env_ok s" for s
    by (simp add: example_env_fields)
  have e: "sql_statements (run env_store_down (Call_createInvoice example_invoice_form))
       = [INSERT_invoices ''c1'' (Fin 1050) ''pending'' ''2026-11-03'']"
    by (simp add: createInvoice_store_down sql_statements_def)
  have f: "\<forall>s \<in> set (sql_statements (run env_store_down
              (Call_createInvoice example_invoice_form))). \<not> sql_resolves env_store_down s"
    using b by simp
  from a b c d e f
    invalidate_and_navigate_after_mutation [where env = env_ok
      and c = "Call_createInvoice [(''amount'', FString ''0'')]" and i = "''7''"]
    invalidate_and_navigate_after_mutation [where env = env_store_down
      and c = "Call_createInvoice example_invoice_form" and i = "''7''"]
    invalidate_and_navigate_after_mutation [where env = env_ok
      and c = "Call_createInvoice example_invoice_form" and i = "''7''"]
  show ?thesis by blast
qed

section \<open>Messages of a failed customer validation\<close>

text \<open>The failure branch of \<^verbatim>\<open>updateCustomer\<close>, reached when the form carries a file and
  some field has an issue.\<close>

lemma updateCustomer_validation_failure:
  assumes "UpdateCustomer_safeParse (emailRegex env) (formData_get fd ''name'')
             (formData_get fd ''email'') (formData_get fd ''image_url'')
             (formData_get fd ''image_upload'') = Inr (Failure issues)"
  shows "updateCustomer env id' fd =
           \<lparr>outcome = Returns \<lparr>errors = Some (flatten_fieldErrors issues),
                                message = Some ''Missing Fields. Failed to Update Invoice.''\<rparr>,
            effects = []\<rparr>"
  using assms by (simp add: updateCustomer_def)

lemma UpdateCustomer_safeParse_only_name_and_file:
  "UpdateCustomer_safeParse email_pattern (Str ''Ada'') Null Null (FileV example_photo)
     = Inr (Failure [(''email'', ''Expected string, received null''),
                     (''image_url'', ''Expected string, received null'')])"
  by (simp add: UpdateCustomer_safeParse_def CreateCustomer_safeParse_def image_upload_example
      FormSchemaCustomer_name_def FormSchemaCustomer_email_def FormSchemaCustomer_image_url_def
      z_string_def z_string_email_def invalid_type_message_def field_issues_def)

text \<open>
  C10. The claim: for every submission that fails validation, \<^verbatim>\<open>createCustomer\<close> returns
  the message \<^verbatim>\<open>Missing Fields. Failed to Create Invoice.\<close> and \<^verbatim>\<open>updateCustomer\<close> returns
  \<^verbatim>\<open>Missing Fields. Failed to Update Invoice.\<close>. The code has both returns, and
  \<^verbatim>\<open>updateCustomer\<close> reaches its own when the form carries a file. \<^verbatim>\<open>createCustomer\<close>
  never reaches its own: a form with a name and nothing else, which has no email and no
  image URL, makes it reject with \<^verbatim>\<open>ReferenceError\<close>, with no message returned, while the
  same form with a file added makes \<^verbatim>\<open>updateCustomer\<close> return its message.
\<close>

theorem createCustomer_message_not_returned:
  "outcome (createCustomer env_ok [(''name'', FString ''Ada'')]) = Rejects ReferenceError
   \<and> message_of (createCustomer env_ok [(''name'', FString ''Ada'')])
       \<noteq> Some ''Missing Fields. Failed to Create Invoice.''
   \<and> message_of (updateCustomer env_ok ''7''
         [(''name'', FString ''Ada''), (''image_upload'', FFile example_photo)])
       = Some ''Missing Fields. Failed to Update Invoice.''"
proof -
  have g: "formData_get [(''name'', FString ''Ada''), (''image_upload'', FFile example_photo)] ''name''
             = Str ''Ada''"
    "formData_get [(''name'', FString ''Ada''), (''image_upload'', FFile example_photo)] ''email''
             = Null"
    "formData_get [(''name'', FString ''Ada''), (''image_upload'', FFile example_photo)] ''image_url''
             = Null"
    "formData_get [(''name'', FString ''Ada''), (''image_upload'', FFile example_photo)]
             ''image_upload'' = FileV example_photo"
    by (simp_all add: formData_get_def)
  have "updateCustomer env_ok ''7''
          [(''name'', FString ''Ada''), (''image_upload'', FFile example_photo)]
        = \<lparr>outcome = Returns \<lparr>errors = Some (flatten_fieldErrors
                  [(''email'', ''Expected string, received null''),
                   (''image_url'', ''Expected string, received null'')]),
                message = Some ''Missing Fields. Failed to Update Invoice.''\<rparr>,
           effects = []\<rparr>"
    by (rule updateCustomer_validation_failure)
      (simp add: g example_env_fields UpdateCustomer_safeParse_only_name_and_file)
  then show ?thesis
    by (simp add: createCustomer_rejects message_of_def)
qed

section \<open>The amount in minor units\<close>

lemma CreateInvoice_safeParse_Success:
  assumes "CreateInvoice_safeParse cid amt st = Success d"
  shows "amount d = Number amt" and "\<not> js_le_zero (amount d)" and "amount d \<noteq> NaN"
    and "Str (customerId d) = cid" and "Str (status d) = st"
    and "status d = ''pending'' \<or> status d = ''paid''"
  using assms
  by (auto simp: CreateInvoice_safeParse_def FormSchema_amount_def z_coerce_number_gt0_def
      FormSchema_customerId_def FormSchema_status_def z_string_def z_enum_def Let_def
      split: parsed.splits if_splits jsval.splits)

text \<open>
  C7. The amount in minor units is the validated amount (the number the amount field
  coerces to) multiplied by 100 with the operator \<^verbatim>\<open>*\<close> of Numbers, and nothing else is
  done to it before it is bound to the statement, in \<^verbatim>\<open>createInvoice\<close> and in
  \<^verbatim>\<open>updateInvoice\<close> alike.
\<close>

theorem amount_in_minor_units:
  assumes "CreateInvoice_safeParse (formData_get fd ''customerId'') (formData_get fd ''amount'')
             (formData_get fd ''status'') = Success d"
  shows "amount d = Number (formData_get fd ''amount'')
       \<and> sql_statements (createInvoice env fd)
           = [INSERT_invoices (customerId d) (js_mul (amount d) (Fin 100)) (status d)
                (isoDate (now env))]
       \<and> sql_statements (updateInvoice env id' fd)
           = [UPDATE_invoices (customerId d) (js_mul (amount d) (Fin 100)) (status d) id']"
  using assms CreateInvoice_safeParse_Success(1) [OF assms]
  by (simp add: createInvoice_def updateInvoice_def UpdateInvoice_safeParse_def
      sql_statements_def Let_def)

text \<open>Scenario 1 of the specification: the amount \<^verbatim>\<open>"10.50"\<close> is stored as 1050.\<close>

theorem amount_in_minor_units_witness:
  "CreateInvoice_safeParse (formData_get example_invoice_form ''customerId'')
       (formData_get example_invoice_form ''amount'') (formData_get example_invoice_form ''status'')
     = Success \<lparr>customerId = ''c1'', amount = Fin (21 / 2), status = ''pending''\<rparr>
   \<and> Number (formData_get example_invoice_form ''amount'') = Fin (21 / 2)
   \<and> sql_statements (createInvoice env_ok example_invoice_form)
       = [INSERT_invoices ''c1'' (Fin 1050) ''pending'' ''2026-11-03'']
   \<and> sql_statements (updateInvoice env_ok ''7'' example_invoice_form)
       = [UPDATE_invoices ''c1'' (Fin 1050) ''pending'' ''7'']"
proof -
  have p: "CreateInvoice_safeParse (formData_get example_invoice_form ''customerId'')
       (formData_get example_invoice_form ''amount'') (formData_get example_invoice_form ''status'')
     = Success \<lparr>customerId = ''c1'', amount = Fin (21 / 2), status = ''pending''\<rparr>"
    by (simp add: example_invoice_form_get CreateInvoice_safeParse_example)
  from p amount_in_minor_units [OF p, of env_ok "''7''"]
  show ?thesis
    by (simp add: to_double_example isoDate_example example_env_fields)
qed

section \<open>What \<^verbatim>\<open>updateInvoice\<close> changes in the store\<close>

text \<open>
  C4 (as amended). For every valid submission that the store accepts, \<^verbatim>\<open>updateInvoice\<close>
  sets three fields of every row whose id is the given one: \<^verbatim>\<open>customer_id\<close>, \<^verbatim>\<open>amount\<close>
  (the amount in minor units) and \<^verbatim>\<open>status\<close>. The date and the id of each row stay as
  they were, rows with another id are not touched, and neither is the customers table.
\<close>

theorem updateInvoice_sets_three_fields:
  assumes "UpdateInvoice_safeParse (formData_get fd ''customerId'') (formData_get fd ''amount'')
             (formData_get fd ''status'') = Success d"
    and "sql_resolves env (UPDATE_invoices (customerId d) (js_mul (amount d) (Fin 100)) (status d) id')"
  shows "invoices (store_after env fresh (updateInvoice env id' fd) db)
           = map (\<lambda>r. if inv_id r = id'
                       then r\<lparr>inv_customer_id := customerId d,
                              inv_amount := js_mul (amount d) (Fin 100),
                              inv_status := status d\<rparr>
                       else r) (invoices db)
       \<and> map inv_date (invoices (store_after env fresh (updateInvoice env id' fd) db))
           = map inv_date (invoices db)
       \<and> map inv_id (invoices (store_after env fresh (updateInvoice env id' fd) db))
           = map inv_id (invoices db)
       \<and> customers (store_after env fresh (updateInvoice env id' fd) db) = customers db"
  using assms
  by (simp add: updateInvoice_def store_after_def sql_statements_def Let_def comp_def)

text \<open>An invoice of January 2024, updated in November 2026 with a form that even carries
  a date field.\<close>

theorem updateInvoice_sets_three_fields_witness:
  "UpdateInvoice_safeParse (formData_get example_invoice_form ''customerId'')
       (formData_get example_invoice_form ''amount'') (formData_get example_invoice_form ''status'')
     = Success \<lparr>customerId = ''c1'', amount = Fin (21 / 2), status = ''pending''\<rparr>
   \<and> sql_resolves env_ok (UPDATE_invoices ''c1'' (Fin 1050) ''pending'' ''7'')
   \<and> invoices (store_after env_ok ''new'' (updateInvoice env_ok ''7'' example_invoice_form)
        example_store)
       = [\<lparr>inv_id = ''7'', inv_customer_id = ''c1'', inv_amount = Fin 1050,
           inv_status = ''pending'', inv_date = ''2024-01-15''\<rparr>,
          \<lparr>inv_id = ''8'', inv_customer_id = ''c2'', inv_amount = Fin 300,
           inv_status = ''pending'', inv_date = ''2024-02-01''\<rparr>]"
proof -
  have p: "UpdateInvoice_safeParse (formData_get example_invoice_form ''customerId'')
       (formData_get example_invoice_form ''amount'') (formData_get example_invoice_form ''status'')
     = Success \<lparr>customerId = ''c1'', amount = Fin (21 / 2), status = ''pending''\<rparr>"
    by (simp add: UpdateInvoice_safeParse_def example_invoice_form_get
        CreateInvoice_safeParse_example)
  have r: "sql_resolves env_ok s" for s
    by (simp add: example_env_fields)
  from p r updateInvoice_sets_three_fields [OF p, of env_ok "''7''" "''new''" example_store]
  show ?thesis
    by (simp add: to_double_example example_store_def)
qed

text \<open>The claim as first stated fails on the date: after a valid update on 2026-11-03,
  with a date field in the form, the row keeps the date 2024-01-15.\<close>

theorem updateInvoice_date_counterexample:
  "isoDate (now env_ok) = ''2026-11-03''
   \<and> outcome (updateInvoice env_ok ''7'' ((''date'', FString ''2026-11-03'') # example_invoice_form))
       = Redirects ''/dashboard/invoices''
   \<and> map inv_date (invoices example_store) = [''2024-01-15'', ''2024-02-01'']
   \<and> map inv_date (invoices (store_after env_ok ''new''
          (updateInvoice env_ok ''7'' ((''date'', FString ''2026-11-03'') # example_invoice_form))
          example_store))
       = [''2024-01-15'', ''2024-02-01'']"
proof -
  have g: "formData_get ((''date'', FString ''2026-11-03'') # example_invoice_form) k
             = formData_get example_invoice_form k"
    if "k \<noteq> ''date''" for k
    using that by (simp add: formData_get_def)
  have u: "updateInvoice env_ok ''7'' ((''date'', FString ''2026-11-03'') # example_invoice_form)
             = updateInvoice env_ok ''7'' example_invoice_form"
    by (simp add: updateInvoice_def g)
  show ?thesis
    unfolding u updateInvoice_ok
    by (simp add: example_env_fields isoDate_example store_after_def sql_statements_def
        example_store_def)
qed

section \<open>The stored file name\<close>

lemma length_String_nat_1: "n < 10 \<Longrightarrow> length (String_nat n) = 1"
  by (subst String_nat.simps) simp

lemma length_String_nat_2: "10 \<le> n \<Longrightarrow> n < 100 \<Longrightarrow> length (String_nat n) = 2"
  by (subst String_nat.simps) (simp add: length_String_nat_1)

lemma length_String_nat_3: "100 \<le> n \<Longrightarrow> n < 1000 \<Longrightarrow> length (String_nat n) = 3"
  by (subst String_nat.simps) (simp add: length_String_nat_2)

lemma length_String_nat_4: "1000 \<le> n \<Longrightarrow> n < 10000 \<Longrightarrow> length (String_nat n) = 4"
  by (subst String_nat.simps) (simp add: length_String_nat_3)

lemma decimal_length: "length (decimal k n) = k"
  by (induction k arbitrary: n) simp_all

lemma decimal_digits: "set (decimal k n) \<subseteq> set ''0123456789''"
proof (induction k arbitrary: n)
  case 0
  show ?case by simp
next
  case (Suc k)
  have "''0123456789'' ! (n mod 10) \<in> set ''0123456789''"
    by (rule nth_mem) simp
  with Suc [of "n div 10"] show ?case
    by simp
qed

lemma digit_val_nth: "d < 10 \<Longrightarrow> digit_val (''0123456789'' ! d) = Some (int d)"
proof -
  assume "d < 10"
  then have "d \<in> {0, 1, 2, 3, 4, 5, 6, 7, 8, 9}" by auto
  then show ?thesis
    by (auto simp: digit_val_def)
qed

lemma digits_value_snoc:
  "digits_value b (xs @ [c]) =
     digits_value b xs * b + (case digit_val c of None \<Rightarrow> 0 | Some v \<Rightarrow> v)"
  by (simp add: digits_value_def)

text \<open>Read as a decimal numeral, \<open>decimal k n\<close> is \<open>n\<close> (up to \<open>10\<^sup>k\<close>).\<close>

lemma decimal_value: "digits_value 10 (decimal k n) = int (n mod 10 ^ k)"
proof (induction k arbitrary: n)
  case 0
  show ?case by (simp add: digits_value_def)
next
  case (Suc k)
  have "n mod 10 < 10" by simp
  from digit_val_nth [OF this]
  have "digits_value 10 (decimal (Suc k) n) = int (n div 10 mod 10 ^ k) * 10 + int (n mod 10)"
    by (simp add: digits_value_snoc Suc)
  also have "\<dots> = int (10 * (n div 10 mod 10 ^ k) + n mod 10)"
    by simp
  also have "10 * (n div 10 mod 10 ^ k) + n mod 10 = n mod (10 * 10 ^ k)"
    by (simp add: mod_mult2_eq)
  finally show ?case by simp
qed

lemma digit_char_zero: "digit_char 0 = CHR ''0''"
  by (simp add: digit_char_def)

lemma decimal_Suc_String_nat:
  "n < 10 ^ Suc k \<Longrightarrow>
     decimal (Suc k) n = replicate (Suc k - length (String_nat n)) (CHR ''0'') @ String_nat n"
proof (induction k arbitrary: n)
  case 0
  then have "n < 10" by simp
  then show ?case
    by (subst (1 2) String_nat.simps) (simp add: digit_char_def)
next
  case (Suc k)
  from Suc.prems have "n div 10 < 10 ^ Suc k"
    by (simp add: less_mult_imp_div_less)
  from Suc.IH [OF this]
  have ih: "decimal (Suc k) (n div 10)
            = replicate (Suc k - length (String_nat (n div 10))) (CHR ''0'') @ String_nat (n div 10)" .
  have step: "decimal (Suc (Suc k)) n
              = decimal (Suc k) (n div 10) @ [''0123456789'' ! (n mod 10)]"
    by (simp only: decimal.simps)
  show ?case
  proof (cases "n < 10")
    case True
    then have z: "n div 10 = 0" and m: "n mod 10 = n" by simp_all
    have s0: "String_nat 0 = ''0''"
      by (subst String_nat.simps) (simp add: digit_char_zero)
    have sn: "String_nat n = [digit_char n]"
      using True by (subst String_nat.simps) simp
    from ih have "decimal (Suc k) (n div 10) = replicate k (CHR ''0'') @ ''0''"
      unfolding z s0 by (simp del: decimal.simps)
    then have "decimal (Suc (Suc k)) n = replicate k (CHR ''0'') @ ''0'' @ [digit_char n]"
      by (simp add: step m digit_char_def del: decimal.simps)
    also have "\<dots> = replicate (Suc k) (CHR ''0'') @ [digit_char n]"
      by (simp add: replicate_append_same)
    finally show ?thesis
      by (simp add: sn del: decimal.simps)
  next
    case False
    then have sn: "String_nat n = String_nat (n div 10) @ [digit_char (n mod 10)]"
      by (subst String_nat.simps) simp
    show ?thesis
      unfolding step ih sn by (simp add: digit_char_def)
  qed
qed

text \<open>\<^verbatim>\<open>String(n).padStart(k, '0')\<close> is the numeral of \<open>k\<close> digits when \<open>n\<close> has at most
  \<open>k\<close> digits.\<close>

lemma padStart0_String_nat:
  assumes "0 < k" and "n < 10 ^ k"
  shows "padStart0 k (String_nat n) = decimal k n"
proof -
  from assms(1) obtain k' where k: "k = Suc k'"
    by (cases k) simp_all
  from assms(2) show ?thesis
    unfolding k padStart0_def by (simp only: decimal_Suc_String_nat)
qed

lemma String_int_year:
  assumes "1000 \<le> y" and "y \<le> 9999"
  shows "String_int y = decimal 4 (nat y)"
proof -
  from assms have n: "nat y < 10 ^ 4" and "\<not> y < 0" by simp_all
  have "padStart0 4 (String_nat (nat y)) = decimal 4 (nat y)"
    using n by (intro padStart0_String_nat) simp_all
  moreover have "length (String_nat (nat y)) = 4"
    using assms by (intro length_String_nat_4) simp_all
  ultimately show ?thesis
    using \<open>\<not> y < 0\<close> by (simp add: String_int_def padStart0_def)
qed

lemma split_at_last:
  assumes "x \<in> set c"
  shows "c = take (length c - (length (takeWhile (\<lambda>y. y \<noteq> x) (rev c)) + 1)) c
             @ x # rev (takeWhile (\<lambda>y. y \<noteq> x) (rev c))"
proof -
  let ?P = "\<lambda>y. y \<noteq> x"
  define tw where "tw = takeWhile ?P (rev c)"
  define dw where "dw = dropWhile ?P (rev c)"
  from assms have ne: "dw \<noteq> []"
    by (simp add: dw_def dropWhile_eq_Nil_conv)
  have "\<not> ?P (hd dw)"
    unfolding dw_def using ne [unfolded dw_def] by (rule hd_dropWhile)
  then have hd: "hd dw = x"
    by simp
  from ne hd obtain rest where d: "dw = x # rest"
    by (cases dw) simp_all
  have "tw @ dw = rev c"
    by (simp add: tw_def dw_def)
  then have "rev (tw @ dw) = c"
    by simp
  then have c: "c = rev rest @ x # rev tw"
    by (simp add: d)
  have len: "length c - (length tw + 1) = length rest"
    by (subst c) simp
  have "take (length rest) c = rev rest"
    by (subst c) simp
  then have "c = take (length c - (length tw + 1)) c @ x # rev tw"
    using c len by simp
  then show ?thesis
    by (simp only: tw_def)
qed

lemma length_last_component: "length (last_component p) \<le> length p"
proof -
  have "length (takeWhile (\<lambda>c. \<not> is_slash c) (dropWhile is_slash (rev p)))
          \<le> length (dropWhile is_slash (rev p))"
    by (rule length_takeWhile_le)
  also have "\<dots> \<le> length (rev p)"
    by (rule length_dropWhile_le)
  finally show ?thesis by (simp add: last_component_def)
qed

lemma basename_extname: "basename p (extname p) @ extname p = last_component p"
proof (cases "extname p = []")
  case True
  then show ?thesis by (simp add: basename_def)
next
  case False
  let ?c = "last_component p"
  let ?after = "rev (takeWhile (\<lambda>x. x \<noteq> CHR ''.'') (rev ?c))"
  from False have dot: "CHR ''.'' \<in> set ?c" and ne: "length ?after + 1 \<noteq> length ?c"
    and ext: "extname p = CHR ''.'' # ?after"
    by (auto simp: extname_def Let_def split: if_splits)
  from split_at_last [OF dot]
  have c: "?c = take (length ?c - (length ?after + 1)) ?c @ extname p"
    by (simp add: ext)
  then have len: "length (extname p) \<le> length ?c"
    by (metis length_append le_add2)
  have lt: "length (extname p) < length ?c"
    using len ne by (simp add: ext)
  have "length (extname p) \<le> length p"
    using len length_last_component [of p] by simp
  moreover have "extname p \<noteq> p"
    using lt length_last_component [of p] by auto
  moreover have "?c \<noteq> extname p"
    using lt by auto
  moreover have "drop (length ?c - length (extname p)) ?c = extname p"
    by (subst c) (simp add: ext)
  moreover have "take (length ?c - length (extname p)) ?c @ extname p = ?c"
    using c by (simp add: ext)
  ultimately show ?thesis
    using False len by (simp add: basename_def Let_def)
qed

lemma kept_char_underscore: "kept_char (CHR ''_'')"
  by (simp add: kept_char_def)

text \<open>The class \<^verbatim>\<open>[a-zA-Z0-9-_]\<close>, character by character.\<close>

lemma kept_char_iff:
  "kept_char c \<longleftrightarrow>
     c \<in> set ''abcdefghijklmnopqrstuvwxyzABCDEFGHIJKLMNOPQRSTUVWXYZ0123456789-_''"
  by (cases c) (simp add: kept_char_def)

text \<open>
  C5. For every original filename, with a clock whose year has four digits,
  \<^verbatim>\<open>sanitizeAndTimestampFilename\<close> returns
  \<^verbatim>\<open><sanitized-base>_<YYYYMMDD>_<HHMMSS>_<mmm><original-extension>\<close>, where: the base is
  the name without its extension, with every character outside \<^verbatim>\<open>[A-Za-z0-9_-]\<close> replaced
  with \<^verbatim>\<open>_\<close>, so that it contains only characters of that class; \<^verbatim>\<open>YYYY\<close>, \<^verbatim>\<open>MM\<close>,
  \<^verbatim>\<open>DD\<close>, \<^verbatim>\<open>HH\<close>, \<^verbatim>\<open>MM\<close>, \<^verbatim>\<open>SS\<close> and \<^verbatim>\<open>mmm\<close> are the year, the month (counted from
  1), the day, the hours, the minutes, the seconds and the milliseconds of the clock, as
  decimal numerals of 4, 2, 2, 2, 2, 2 and 3 digits; and the extension is
  \<^verbatim>\<open>path.extname\<close> of the original filename, appended as it is: name without extension and
  extension together are the last component of the original path.
\<close>

theorem sanitized_filename_shape:
  assumes "valid_clock clock"
  shows "sanitizeAndTimestampFilename clock f =
           map (\<lambda>c. if c \<in> set ''abcdefghijklmnopqrstuvwxyzABCDEFGHIJKLMNOPQRSTUVWXYZ0123456789-_'' then c else CHR ''_'') (basename f (extname f))
           @ ''_''
           @ decimal 4 (nat (getFullYear clock)) @ decimal 2 (getMonth clock + 1)
           @ decimal 2 (getDate clock)
           @ ''_''
           @ decimal 2 (getHours clock) @ decimal 2 (getMinutes clock)
           @ decimal 2 (getSeconds clock)
           @ ''_''
           @ decimal 3 (getMilliseconds clock)
           @ extname f
       \<and> set (map (\<lambda>c. if c \<in> set ''abcdefghijklmnopqrstuvwxyzABCDEFGHIJKLMNOPQRSTUVWXYZ0123456789-_'' then c else CHR ''_'') (basename f (extname f)))
           \<subseteq> set ''abcdefghijklmnopqrstuvwxyzABCDEFGHIJKLMNOPQRSTUVWXYZ0123456789-_''
       \<and> basename f (extname f) @ extname f = last_component f"
proof (intro conjI)
  from assms have y: "1000 \<le> getFullYear clock" "getFullYear clock \<le> 9999"
    and m: "getMonth clock + 1 < 10 ^ 2" and d: "getDate clock < 10 ^ 2"
    and h: "getHours clock < 10 ^ 2" and mi: "getMinutes clock < 10 ^ 2"
    and s: "getSeconds clock < 10 ^ 2" and ms: "getMilliseconds clock < 10 ^ 3"
    by (simp_all add: valid_clock_def)
  have t: "timestamp clock =
             decimal 4 (nat (getFullYear clock)) @ decimal 2 (getMonth clock + 1)
             @ decimal 2 (getDate clock)
             @ ''_''
             @ decimal 2 (getHours clock) @ decimal 2 (getMinutes clock)
             @ decimal 2 (getSeconds clock)
             @ ''_''
             @ decimal 3 (getMilliseconds clock)"
    unfolding timestamp_def Let_def
    by (simp only: String_int_year [OF y] padStart0_String_nat [OF _ m]
        padStart0_String_nat [OF _ d] padStart0_String_nat [OF _ h]
        padStart0_String_nat [OF _ mi] padStart0_String_nat [OF _ s]
        padStart0_String_nat [OF _ ms] zero_less_numeral append_assoc)
  have k: "(\<lambda>c. if kept_char c then c else CHR ''_'')
             = (\<lambda>c. if c \<in> set ''abcdefghijklmnopqrstuvwxyzABCDEFGHIJKLMNOPQRSTUVWXYZ0123456789-_'' then c else CHR ''_'')"
    by (simp only: kept_char_iff)
  show "sanitizeAndTimestampFilename clock f =
           map (\<lambda>c. if c \<in> set ''abcdefghijklmnopqrstuvwxyzABCDEFGHIJKLMNOPQRSTUVWXYZ0123456789-_'' then c else CHR ''_'') (basename f (extname f))
           @ ''_''
           @ decimal 4 (nat (getFullYear clock)) @ decimal 2 (getMonth clock + 1)
           @ decimal 2 (getDate clock)
           @ ''_''
           @ decimal 2 (getHours clock) @ decimal 2 (getMinutes clock)
           @ decimal 2 (getSeconds clock)
           @ ''_''
           @ decimal 3 (getMilliseconds clock)
           @ extname f"
    unfolding sanitizeAndTimestampFilename_def Let_def t k
    by (simp only: append_assoc)
  show "set (map (\<lambda>c. if c \<in> set ''abcdefghijklmnopqrstuvwxyzABCDEFGHIJKLMNOPQRSTUVWXYZ0123456789-_'' then c else CHR ''_'') (basename f (extname f)))
           \<subseteq> set ''abcdefghijklmnopqrstuvwxyzABCDEFGHIJKLMNOPQRSTUVWXYZ0123456789-_''"
    by auto
  show "basename f (extname f) @ extname f = last_component f"
    by (rule basename_extname)
qed

lemma example_now_fields:
  "nat (getFullYear example_now) = 2026" "getMonth example_now + 1 = 11"
  "getDate example_now = 3" "getHours example_now = 9" "getMinutes example_now = 5"
  "getSeconds example_now = 7" "getMilliseconds example_now = 42"
  by (simp_all add: example_now_def)

lemma decimal_examples:
  "decimal 4 2026 = ''2026''" "decimal 2 11 = ''11''" "decimal 2 3 = ''03''"
  "decimal 2 9 = ''09''" "decimal 2 5 = ''05''" "decimal 2 7 = ''07''" "decimal 3 42 = ''042''"
  by code_simp+

lemma replace_example_class:
  "map (\<lambda>c. if c \<in> set ''abcdefghijklmnopqrstuvwxyzABCDEFGHIJKLMNOPQRSTUVWXYZ0123456789-_'' then c else CHR ''_'') ''My Photo'' = ''My_Photo''"
  by simp

text \<open>Scenario 4 of the specification: \<^verbatim>\<open>My Photo.JPG\<close>, at 09:05:07.042 on 3 November
  2026.\<close>

theorem sanitized_filename_shape_witness:
  "valid_clock example_now
   \<and> sanitizeAndTimestampFilename example_now ''My Photo.JPG''
       = ''My_Photo_20261103_090507_042.JPG''
   \<and> basename ''My Photo.JPG'' ''.JPG'' @ ''.JPG'' = last_component ''My Photo.JPG''"
proof -
  have v: "valid_clock example_now"
    by (simp add: valid_clock_def example_now_def)
  from sanitized_filename_shape [OF v, of "''My Photo.JPG''"]
  show ?thesis
    unfolding extname_example basename_example example_now_fields decimal_examples
      replace_example_class
    using v by simp
qed

section \<open>Field errors of \<^verbatim>\<open>updateCustomer\<close> when the form carries a file\<close>

lemma image_upload_file:
  "FormSchemaCustomer_image_upload (FileV f) =
     Inr (case image_upload_superRefine (Some f) of [] \<Rightarrow> Valid f | issues \<Rightarrow> Invalid issues)"
  by (simp add: FormSchemaCustomer_image_upload_def image_upload_transform_def
      split: list.splits)

lemma CreateCustomer_safeParse_file:
  "\<exists>R. CreateCustomer_safeParse re n e u (FileV f) = Inr R
     \<and> (case R of Failure issues \<Rightarrow> messages_for ''name'' issues | Success d \<Rightarrow> [])
         = (case FormSchemaCustomer_name n of Valid x \<Rightarrow> [] | Invalid ms \<Rightarrow> ms)
     \<and> (case R of Failure issues \<Rightarrow> messages_for ''image_upload'' issues | Success d \<Rightarrow> [])
         = image_upload_superRefine (Some f)"
  by (simp add: CreateCustomer_safeParse_def image_upload_file split: parsed.splits list.splits)

lemma fieldErrors_of_updateCustomer:
  assumes "CreateCustomer_safeParse (emailRegex env) (formData_get fd ''name'')
             (formData_get fd ''email'') (formData_get fd ''image_url'')
             (formData_get fd ''image_upload'') = Inr R"
  shows "fieldErrors_of (updateCustomer env id' fd) k =
     (let ms = (case R of Failure issues \<Rightarrow> messages_for k issues | Success d \<Rightarrow> [])
      in if ms = [] then None else Some ms)"
  using assms
  by (simp add: updateCustomer_def UpdateCustomer_safeParse_def fieldErrors_of_def
      map_of_flatten_fieldErrors Let_def split: safeParseReturn.splits)

lemma fieldErrors_name:
  assumes "formData_get fd ''image_upload'' = FileV f"
  shows "fieldErrors_of (updateCustomer env id' fd) ''name'' =
     (case FormSchemaCustomer_name (formData_get fd ''name'') of
        Valid x \<Rightarrow> None
      | Invalid ms \<Rightarrow> if ms = [] then None else Some ms)"
proof -
  from CreateCustomer_safeParse_file [of "emailRegex env" "formData_get fd ''name''"
      "formData_get fd ''email''" "formData_get fd ''image_url''" f]
  obtain R where R: "CreateCustomer_safeParse (emailRegex env) (formData_get fd ''name'')
             (formData_get fd ''email'') (formData_get fd ''image_url'')
             (formData_get fd ''image_upload'') = Inr R"
    and n: "(case R of Failure issues \<Rightarrow> messages_for ''name'' issues | Success d \<Rightarrow> [])
         = (case FormSchemaCustomer_name (formData_get fd ''name'') of
              Valid x \<Rightarrow> [] | Invalid ms \<Rightarrow> ms)"
    unfolding assms by blast
  show ?thesis
    unfolding fieldErrors_of_updateCustomer [OF R] n
    by (simp split: parsed.splits)
qed

text \<open>The errors of the field \<^verbatim>\<open>image_upload\<close> when it is a file: the size message, then
  the type message, each when its defect is present.\<close>

lemma fieldErrors_image_upload_file:
  assumes "formData_get fd ''image_upload'' = FileV f"
  shows "fieldErrors_of (updateCustomer env id' fd) ''image_upload'' =
     (let too_large = (5 * 1024 * 1024 < file_size f);
          not_image = (file_type f \<notin> {''image/jpeg'', ''image/png'', ''image/webp'', ''image/jpg''})
      in if too_large \<and> not_image
         then Some [''Max file size allowed is 5MB'',
                    ''File must be an image (jpeg, jpg, png, webp)'']
         else if too_large then Some [''Max file size allowed is 5MB'']
         else if not_image then Some [''File must be an image (jpeg, jpg, png, webp)'']
         else None)"
proof -
  from CreateCustomer_safeParse_file [of "emailRegex env" "formData_get fd ''name''"
      "formData_get fd ''email''" "formData_get fd ''image_url''" f]
  obtain R where R: "CreateCustomer_safeParse (emailRegex env) (formData_get fd ''name'')
             (formData_get fd ''email'') (formData_get fd ''image_url'')
             (formData_get fd ''image_upload'') = Inr R"
    and u: "(case R of Failure issues \<Rightarrow> messages_for ''image_upload'' issues | Success d \<Rightarrow> [])
         = image_upload_superRefine (Some f)"
    unfolding assms by blast
  show ?thesis
    unfolding fieldErrors_of_updateCustomer [OF R] u
    by (simp add: image_upload_superRefine_def Let_def)
qed

lemma formData_get_cases:
  "formData_get fd k = Null \<or> (\<exists>s. formData_get fd k = Str s) \<or> (\<exists>f. formData_get fd k = FileV f)"
  by (simp add: formData_get_def split: option.splits formDataEntryValue.splits)

section \<open>Validation of \<^verbatim>\<open>image_upload\<close>\<close>

text \<open>
  C6. The claim: in the update-customer flow a value of \<^verbatim>\<open>image_upload\<close> that is not a file
  yields the single issue \<^verbatim>\<open>Not a file\<close>, and a file yields the size and the type messages,
  together when both apply. The schema has the issue \<^verbatim>\<open>Not a file\<close>, and the code does not
  reach it: for a form without the field, and for a form where the field is a string,
  \<^verbatim>\<open>updateCustomer\<close> rejects with \<^verbatim>\<open>ReferenceError\<close> and returns no field error. For a
  file the claim holds (\<open>fieldErrors_image_upload_file\<close>), as for a PDF of 6 MB.
\<close>

theorem image_upload_not_a_file:
  "outcome (updateCustomer env_ok ''7''
       [(''name'', FString ''Ada''), (''email'', FString ''ada@example.com''),
        (''image_url'', FString ''/customers/ada.png'')]) = Rejects ReferenceError
   \<and> fieldErrors_of (updateCustomer env_ok ''7''
       [(''name'', FString ''Ada''), (''email'', FString ''ada@example.com''),
        (''image_url'', FString ''/customers/ada.png'')]) ''image_upload''
       \<noteq> Some [''Not a file'']
   \<and> outcome (updateCustomer env_ok ''7'' [(''image_upload'', FString ''scan.pdf'')])
       = Rejects ReferenceError
   \<and> fieldErrors_of (updateCustomer env_ok ''7'' [(''image_upload'', FString ''scan.pdf'')])
         ''image_upload'' \<noteq> Some [''Not a file'']
   \<and> fieldErrors_of (updateCustomer env_ok ''7''
       [(''image_upload'', FFile \<lparr>file_name = ''scan.pdf'', file_size = 6 * 1024 * 1024,
                                   file_type = ''application/pdf'', file_content = []\<rparr>)])
         ''image_upload''
       = Some [''Max file size allowed is 5MB'', ''File must be an image (jpeg, jpg, png, webp)'']"
proof -
  have a: "updateCustomer env_ok ''7''
       [(''name'', FString ''Ada''), (''email'', FString ''ada@example.com''),
        (''image_url'', FString ''/customers/ada.png'')]
       = \<lparr>outcome = Rejects ReferenceError, effects = []\<rparr>"
    by (rule updateCustomer_rejects) (simp add: formData_get_def)
  have b: "updateCustomer env_ok ''7'' [(''image_upload'', FString ''scan.pdf'')]
       = \<lparr>outcome = Rejects ReferenceError, effects = []\<rparr>"
    by (rule updateCustomer_rejects) (simp add: formData_get_def)
  have c: "fieldErrors_of (updateCustomer env_ok ''7''
       [(''image_upload'', FFile \<lparr>file_name = ''scan.pdf'', file_size = 6 * 1024 * 1024,
                                   file_type = ''application/pdf'', file_content = []\<rparr>)])
         ''image_upload''
       = Some [''Max file size allowed is 5MB'', ''File must be an image (jpeg, jpg, png, webp)'']"
    using fieldErrors_image_upload_file [where env = env_ok and id' = "''7''"
        and fd = "[(''image_upload'', FFile \<lparr>file_name = ''scan.pdf'',
                     file_size = 6 * 1024 * 1024, file_type = ''application/pdf'',
                     file_content = []\<rparr>)]"
        and f = "\<lparr>file_name = ''scan.pdf'', file_size = 6 * 1024 * 1024,
                  file_type = ''application/pdf'', file_content = []\<rparr>"]
    by (simp add: formData_get_def Let_def)
  show ?thesis
    unfolding a b using c by (simp add: fieldErrors_of_def)
qed

section \<open>Validation of the customer name\<close>

lemma UpdateCustomer_safeParse_empty_name:
  "UpdateCustomer_safeParse email_pattern (Str '''') (Str ''ada@example.com'')
     (Str ''/customers/ada.png'') (FileV example_photo)
   = Inr (Success \<lparr>name = '''', email = ''ada@example.com'',
                     image_url = ''/customers/ada.png'', image_upload = example_photo\<rparr>)"
  by (simp add: UpdateCustomer_safeParse_def CreateCustomer_safeParse_def FormSchemaCustomer_name_def
      FormSchemaCustomer_email_def FormSchemaCustomer_image_url_def z_string_def z_string_email_def
      email_pattern_example image_upload_example)

lemma empty_name_form_get:
  "formData_get ((''name'', FString '''') # example_customer_form) ''name'' = Str ''''"
  "formData_get ((''name'', FString '''') # example_customer_form) ''email'' = Str ''ada@example.com''"
  "formData_get ((''name'', FString '''') # example_customer_form) ''image_url''
     = Str ''/customers/ada.png''"
  "formData_get ((''name'', FString '''') # example_customer_form) ''image_upload''
     = FileV example_photo"
  by (simp_all add: formData_get_def example_customer_form_def)

lemma updateCustomer_empty_name:
  "updateCustomer env_ok ''7'' ((''name'', FString '''') # example_customer_form) =
     \<lparr>outcome = Redirects ''/dashboard/customers'',
      effects = [ConsoleLog [''My_Photo_20261103_090507_042.JPG''],
                 WriteFile [''/app'', ''/public/customers/My_Photo_20261103_090507_042.JPG'']
                   [255, 216, 255],
                 ConsoleLog [''archivo subido correctamente'', ''My_Photo_20261103_090507_042.JPG''],
                 Sql (UPDATE_customers '''' ''ada@example.com''
                        ''/customers/My_Photo_20261103_090507_042.JPG'' ''7''),
                 RevalidatePath ''/dashboard/customers'', Redirect ''/dashboard/customers'']\<rparr>"
  unfolding updateCustomer_def empty_name_form_get example_env_fields
    UpdateCustomer_safeParse_empty_name
  by (simp add: Let_def example_photo_fields sanitize_example)

text \<open>
  C8 (as amended). Customer name validation requires a string, and accepts every string,
  the empty one included. For every submission to \<^verbatim>\<open>updateCustomer\<close> that carries a file
  as \<^verbatim>\<open>image_upload\<close>: when the name is of the wrong type (a file, or \<^verbatim>\<open>null\<close>, which is
  what a missing field reads as), validation fails with the single error
  \<^verbatim>\<open>Caracteres no validos\<close> (with an acute accent on the second a) on the name field; when
  the name is a string, empty or not, there is no error on the name field. The error
  \<^verbatim>\<open>Ingrese el nombre del cliente\<close> is the one the schema gives an undefined name, which
  \<^verbatim>\<open>formData.get\<close> never returns.
\<close>

theorem customer_name_validation:
  "FormSchemaCustomer_name Undefined = Invalid [''Ingrese el nombre del cliente'']
   \<and> (\<forall>f. formData_get fd ''image_upload'' = FileV f \<longrightarrow>
         formData_get fd ''name'' \<noteq> Undefined
         \<and> (formData_get fd ''name'' = Null \<longrightarrow>
              fieldErrors_of (updateCustomer env id' fd) ''name''
                = Some [msg_caracteres_no_validos])
         \<and> (\<forall>g. formData_get fd ''name'' = FileV g \<longrightarrow>
              fieldErrors_of (updateCustomer env id' fd) ''name''
                = Some [msg_caracteres_no_validos])
         \<and> (\<forall>s. formData_get fd ''name'' = Str s \<longrightarrow>
              fieldErrors_of (updateCustomer env id' fd) ''name'' = None))"
proof (intro conjI allI impI)
  show "FormSchemaCustomer_name Undefined = Invalid [''Ingrese el nombre del cliente'']"
    by (simp add: FormSchemaCustomer_name_def z_string_def invalid_type_message_def)
next
  show "formData_get fd ''name'' \<noteq> Undefined"
    using formData_get_cases [of fd "''name''"] by auto
next
  fix f
  assume u: "formData_get fd ''image_upload'' = FileV f"
    and n: "formData_get fd ''name'' = Null"
  have "FormSchemaCustomer_name Null = Invalid [msg_caracteres_no_validos]"
    by (simp add: FormSchemaCustomer_name_def z_string_def invalid_type_message_def)
  with fieldErrors_name [OF u] n
  show "fieldErrors_of (updateCustomer env id' fd) ''name'' = Some [msg_caracteres_no_validos]"
    by simp
next
  fix f g
  assume u: "formData_get fd ''image_upload'' = FileV f"
    and n: "formData_get fd ''name'' = FileV g"
  have "FormSchemaCustomer_name (FileV g) = Invalid [msg_caracteres_no_validos]"
    by (simp add: FormSchemaCustomer_name_def z_string_def invalid_type_message_def)
  with fieldErrors_name [OF u] n
  show "fieldErrors_of (updateCustomer env id' fd) ''name'' = Some [msg_caracteres_no_validos]"
    by simp
next
  fix f s
  assume u: "formData_get fd ''image_upload'' = FileV f"
    and n: "formData_get fd ''name'' = Str s"
  have "FormSchemaCustomer_name (Str s) = Valid s"
    by (simp add: FormSchemaCustomer_name_def z_string_def)
  with fieldErrors_name [OF u] n
  show "fieldErrors_of (updateCustomer env id' fd) ''name'' = None"
    by simp
qed

text \<open>Three forms that carry the photo: one without a name, one whose name is a file, and
  one whose name is the empty string.\<close>

theorem customer_name_validation_witness:
  "formData_get [(''image_upload'', FFile example_photo)] ''image_upload'' = FileV example_photo
   \<and> formData_get [(''image_upload'', FFile example_photo)] ''name'' = Null
   \<and> fieldErrors_of (updateCustomer env_ok ''7'' [(''image_upload'', FFile example_photo)]) ''name''
       = Some [msg_caracteres_no_validos]
   \<and> formData_get [(''name'', FFile example_photo), (''image_upload'', FFile example_photo)] ''name''
       = FileV example_photo
   \<and> fieldErrors_of (updateCustomer env_ok ''7''
         [(''name'', FFile example_photo), (''image_upload'', FFile example_photo)]) ''name''
       = Some [msg_caracteres_no_validos]
   \<and> formData_get ((''name'', FString '''') # example_customer_form) ''image_upload''
       = FileV example_photo
   \<and> formData_get ((''name'', FString '''') # example_customer_form) ''name'' = Str ''''
   \<and> fieldErrors_of (updateCustomer env_ok ''7'' ((''name'', FString '''') # example_customer_form))
         ''name'' = None"
proof -
  have a: "formData_get [(''image_upload'', FFile example_photo)] ''image_upload''
             = FileV example_photo"
    "formData_get [(''image_upload'', FFile example_photo)] ''name'' = Null"
    and b: "formData_get [(''name'', FFile example_photo), (''image_upload'', FFile example_photo)]
              ''name'' = FileV example_photo"
    "formData_get [(''name'', FFile example_photo), (''image_upload'', FFile example_photo)]
              ''image_upload'' = FileV example_photo"
    by (simp_all add: formData_get_def)
  from a b empty_name_form_get(1,4)
    customer_name_validation [where env = env_ok and id' = "''7''"
      and fd = "[(''image_upload'', FFile example_photo)]"]
    customer_name_validation [where env = env_ok and id' = "''7''"
      and fd = "[(''name'', FFile example_photo), (''image_upload'', FFile example_photo)]"]
    customer_name_validation [where env = env_ok and id' = "''7''"
      and fd = "(''name'', FString '''') # example_customer_form"]
  show ?thesis by blast
qed

text \<open>The claim as first stated fails on the empty name, which passes validation and is
  written to the store, and on the missing name, whose error is another message.\<close>

theorem empty_name_counterexample:
  "formData_get ((''name'', FString '''') # example_customer_form) ''name'' = Str ''''
   \<and> fieldErrors_of (updateCustomer env_ok ''7'' ((''name'', FString '''') # example_customer_form))
         ''name'' \<noteq> Some [''Ingrese el nombre del cliente'']
   \<and> sql_statements (updateCustomer env_ok ''7'' ((''name'', FString '''') # example_customer_form))
       = [UPDATE_customers '''' ''ada@example.com''
            ''/customers/My_Photo_20261103_090507_042.JPG'' ''7'']
   \<and> formData_get [(''image_upload'', FFile example_photo)] ''name'' = Null
   \<and> fieldErrors_of (updateCustomer env_ok ''7'' [(''image_upload'', FFile example_photo)]) ''name''
        \<noteq> Some [''Ingrese el nombre del cliente'']"
proof -
  have "FormSchemaCustomer_name Null = Invalid [msg_caracteres_no_validos]"
    by (simp add: FormSchemaCustomer_name_def z_string_def invalid_type_message_def)
  then have "fieldErrors_of (updateCustomer env_ok ''7'' [(''image_upload'', FFile example_photo)])
               ''name'' = Some [msg_caracteres_no_validos]"
    using fieldErrors_name [of "[(''image_upload'', FFile example_photo)]" example_photo
        env_ok "''7''"]
    by (simp add: formData_get_def)
  moreover have "msg_caracteres_no_validos \<noteq> ''Ingrese el nombre del cliente''"
    by (simp add: msg_caracteres_no_validos_def)
  ultimately show ?thesis
    by (simp add: updateCustomer_empty_name empty_name_form_get fieldErrors_of_def
        sql_statements_def formData_get_def)
qed

end
